theory Spec2Isabelle
  imports Main "HOL-Library.Monad_Syntax"
begin

section \<open>Python text primitives used by the client\<close>

text \<open>
  Python \<open>str\<close> and \<open>bytes\<close> values are modelled as \<^typ>\<open>string\<close>: a character stands
  for the code point (or byte) of the same number, so the model covers text whose code
  points are below 256. The character classes below are Python's on that range.
\<close>

definition py_isspace :: "char \<Rightarrow> bool" where
  \<comment> \<open>the characters removed by \<open>str.strip()\<close>: TAB..CR, FS..US, space, NEL, NBSP\<close>
  "py_isspace c = ((of_char c :: nat) \<in> {9, 10, 11, 12, 13, 28, 29, 30, 31, 32, 133, 160})"

definition is_decimal :: "char \<Rightarrow> bool" where
  \<comment> \<open>the characters from 0 to 9: what \<open>int()\<close> reads and what the pattern \<open>\d\<close> matches\<close>
  "is_decimal c = (48 \<le> (of_char c :: nat) \<and> (of_char c :: nat) \<le> 57)"

definition py_isdigit_char :: "char \<Rightarrow> bool" where
  \<comment> \<open>\<open>str.isdigit()\<close> also accepts the superscripts two, three and one\<close>
  "py_isdigit_char c = (is_decimal c \<or> (of_char c :: nat) \<in> {178, 179, 185})"

definition py_isdigit :: "string \<Rightarrow> bool" where
  "py_isdigit s = (s \<noteq> [] \<and> list_all py_isdigit_char s)"

definition py_rstrip :: "string \<Rightarrow> string" where
  "py_rstrip s = rev (dropWhile py_isspace (rev s))"

definition py_strip :: "string \<Rightarrow> string" where
  "py_strip s = dropWhile py_isspace (py_rstrip s)"

fun py_split :: "char \<Rightarrow> string \<Rightarrow> string list" where
  \<comment> \<open>\<open>s.split(sep)\<close> for a separator of one character\<close>
  "py_split sep [] = [[]]"
| "py_split sep (c # cs) =
     (if c = sep then [] # py_split sep cs
      else (case py_split sep cs of
              [] \<Rightarrow> [[c]]
            | p # ps \<Rightarrow> (c # p) # ps))"

definition py_startswith :: "string \<Rightarrow> string \<Rightarrow> bool" where
  "py_startswith s p = (take (length p) s = p)"

fun py_join :: "string \<Rightarrow> string list \<Rightarrow> string" where
  "py_join sep [] = []"
| "py_join sep [p] = p"
| "py_join sep (p # ps) = p @ sep @ py_join sep ps"

definition digit_char :: "nat \<Rightarrow> char" where
  "digit_char d = ''0123456789'' ! d"

fun str_nat :: "nat \<Rightarrow> string" where
  "str_nat n = (if n < 10 then [digit_char n] else str_nat (n div 10) @ [digit_char (n mod 10)])"

declare str_nat.simps [simp del]

definition py_str :: "int \<Rightarrow> string" where
  \<comment> \<open>\<open>str(n)\<close> and \<open>f"{n}"\<close> for an integer\<close>
  "py_str n = (if n < 0 then CHR ''-'' # str_nat (nat (- n)) else str_nat (nat n))"

definition digit_val :: "char \<Rightarrow> nat" where
  "digit_val c = of_char c - 48"

definition nat_of_digits :: "string \<Rightarrow> nat" where
  "nat_of_digits s = foldl (\<lambda>acc c. 10 * acc + digit_val c) 0 s"

datatype exn_kind = ValueError | KeyError | TypeError | AttributeError | OSError | SocketTimeout
  | JSONDecodeError | EOFError | TimeoutExpired | PlainException

datatype py_exception = Raised exn_kind string

definition py_repr :: "string \<Rightarrow> string" where
  \<comment> \<open>\<open>repr(s)\<close> of a text of printable characters with no quote or backslash in it\<close>
  "py_repr s = [CHR 0x27] @ s @ [CHR 0x27]"

fun strip_underscores :: "string \<Rightarrow> string option" where
  \<comment> \<open>the digits of a literal in which single underscores may separate digits\<close>
  "strip_underscores [] = None"
| "strip_underscores [c] = (if is_decimal c then Some [c] else None)"
| "strip_underscores (c # d # r) =
     (if is_decimal c then
        (if d = CHR ''_'' then map_option ((#) c) (strip_underscores r)
         else map_option ((#) c) (strip_underscores (d # r)))
      else None)"

definition int_space :: "char \<Rightarrow> bool" where
  \<comment> \<open>the blanks \<open>int()\<close> skips around a literal: TAB..CR, space, NEL, NBSP\<close>
  "int_space c = ((of_char c :: nat) \<in> {9, 10, 11, 12, 13, 32, 133, 160})"

definition py_int :: "string \<Rightarrow> py_exception + int" where
  \<comment> \<open>\<open>int(s)\<close> for a string in base ten: surrounding blanks, an optional sign, digits\<close>
  "py_int s =
     (let t = dropWhile int_space (rev (dropWhile int_space (rev s)));
          neg = (case t of c # _ \<Rightarrow> c = CHR ''-'' | [] \<Rightarrow> False);
          body = (case t of c # r \<Rightarrow> if c = CHR ''-'' \<or> c = CHR ''+'' then r else t | [] \<Rightarrow> t)
      in case strip_underscores body of
           None \<Rightarrow> Inl (Raised ValueError (''invalid literal for int() with base 10: '' @ py_repr s))
         | Some ds \<Rightarrow> Inr ((if neg then - 1 else 1) * int (nat_of_digits ds)))"

section \<open>FTPResponse (network_utils.py)\<close>

record FTPResponse =
  raw :: string
  lines :: "string list"
  code :: "int option"
  message :: string

definition FTPResponse_init :: "string \<Rightarrow> py_exception + FTPResponse" where
  "FTPResponse_init response_text =
     (let ls = py_split CHR 0x0A (py_strip response_text);
          r0 = \<lparr>raw = response_text, lines = ls, code = None, message = ''''\<rparr>
      in (case ls of
            [] \<Rightarrow> Inr r0
          | first_line # _ \<Rightarrow>
              if length first_line \<ge> 3 \<and> py_isdigit (take 3 first_line) then
                (case py_int (take 3 first_line) of
                   Inl e \<Rightarrow> Inl e
                 | Inr n \<Rightarrow>
                     Inr (r0\<lparr>code := Some n,
                             message := (if length first_line > 3 then drop 4 first_line else '''')\<rparr>))
              else Inr r0))"

definition truthy_code :: "FTPResponse \<Rightarrow> (int \<Rightarrow> bool) \<Rightarrow> bool" where
  \<comment> \<open>the truth value of \<open>self.code and P(self.code)\<close>: false for \<open>None\<close> and for 0\<close>
  "truthy_code r P = (case code r of None \<Rightarrow> False | Some c \<Rightarrow> c \<noteq> 0 \<and> P c)"

definition is_positive :: "FTPResponse \<Rightarrow> bool" where
  "is_positive r = truthy_code r (\<lambda>c. 200 \<le> c \<and> c < 300)"

definition is_positive_preliminary :: "FTPResponse \<Rightarrow> bool" where
  "is_positive_preliminary r = truthy_code r (\<lambda>c. 100 \<le> c \<and> c < 200)"

definition is_positive_intermediate :: "FTPResponse \<Rightarrow> bool" where
  "is_positive_intermediate r = truthy_code r (\<lambda>c. 300 \<le> c \<and> c < 400)"

definition is_error :: "FTPResponse \<Rightarrow> bool" where
  "is_error r = truthy_code r (\<lambda>c. c \<ge> 400)"

definition first_line :: "string \<Rightarrow> string" where
  \<comment> \<open>what \<open>__init__\<close> reads the code from: the stripped text up to its first newline\<close>
  "first_line response_text = takeWhile (\<lambda>c. c \<noteq> CHR 0x0A) (py_strip response_text)"

definition classification :: "FTPResponse \<Rightarrow> bool list" where
  "classification r =
     [is_positive_preliminary r, is_positive r, is_positive_intermediate r, is_error r]"

section \<open>Passive and active addresses (network_utils.py)\<close>

text \<open>
  \<open>parse_pasv_response\<close> searches its argument for the pattern
  \<^verbatim>\<open>\((\d+),(\d+),(\d+),(\d+),(\d+),(\d+)\)\<close>. Every separator of the pattern is a
  character that \<open>\d\<close> does not match, so a match that starts at a given position takes
  each maximal run of digits whole: \<open>digits_then\<close> reads one group and its separator,
  \<open>match_here\<close> the pattern at the start of the text, and \<open>re_search\<close> tries the positions
  from left to right as \<open>re.search\<close> does.
\<close>

definition digits_then :: "char \<Rightarrow> string \<Rightarrow> (string \<times> string) option" where
  "digits_then sep s =
     (let ds = takeWhile is_decimal s in
      case dropWhile is_decimal s of
        [] \<Rightarrow> None
      | c # rest \<Rightarrow> if ds \<noteq> [] \<and> c = sep then Some (ds, rest) else None)"

definition match_here :: "string \<Rightarrow> string list option" where
  "match_here s =
     (case s of
        [] \<Rightarrow> None
      | c # s0 \<Rightarrow>
          if c \<noteq> CHR ''('' then None
          else do {
            (g1, s1) \<leftarrow> digits_then CHR '','' s0;
            (g2, s2) \<leftarrow> digits_then CHR '','' s1;
            (g3, s3) \<leftarrow> digits_then CHR '','' s2;
            (g4, s4) \<leftarrow> digits_then CHR '','' s3;
            (g5, s5) \<leftarrow> digits_then CHR '','' s4;
            (g6, s6) \<leftarrow> digits_then CHR '')'' s5;
            Some [g1, g2, g3, g4, g5, g6]
          })"

fun re_search :: "string \<Rightarrow> string list option" where
  "re_search [] = match_here []"
| "re_search (c # cs) =
     (case match_here (c # cs) of
        Some groups \<Rightarrow> Some groups
      | None \<Rightarrow> re_search cs)"

fun map_int :: "string list \<Rightarrow> py_exception + int list" where
  \<comment> \<open>\<open>map(int, groups)\<close>, consumed by the unpacking: the first failure is raised\<close>
  "map_int [] = Inr []"
| "map_int (g # gs) =
     (case py_int g of
        Inl e \<Rightarrow> Inl e
      | Inr n \<Rightarrow> (case map_int gs of Inl e \<Rightarrow> Inl e | Inr ns \<Rightarrow> Inr (n # ns)))"

definition parse_pasv_body :: "string \<Rightarrow> py_exception + (string \<times> int) option" where
  \<comment> \<open>the body of the \<open>try\<close> block; \<open>Inr None\<close> is falling out of it without a match\<close>
  "parse_pasv_body response =
     (case re_search response of
        None \<Rightarrow> Inr None
      | Some groups \<Rightarrow>
          (case map_int groups of
             Inl e \<Rightarrow> Inl e
           | Inr [h1, h2, h3, h4, p1, p2] \<Rightarrow>
               let ip = py_str h1 @ ''.'' @ py_str h2 @ ''.'' @ py_str h3 @ ''.'' @ py_str h4;
                   port = p1 * 256 + p2
               in Inr (Some (ip, port))
           | Inr _ \<Rightarrow> Inl (Raised ValueError ''wrong number of values to unpack'')))"

definition parse_pasv_response :: "string \<Rightarrow> (string \<times> int) option" where
  \<comment> \<open>\<open>except Exception: pass\<close>, then \<open>return None\<close>\<close>
  "parse_pasv_response response =
     (case parse_pasv_body response of
        Inl e \<Rightarrow> None
      | Inr r \<Rightarrow> r)"

definition create_port_command :: "string \<Rightarrow> int \<Rightarrow> py_exception + string" where
  "create_port_command host port =
     (let ip_parts = py_split CHR ''.'' host in
      if length ip_parts \<noteq> 4 then
        Inl (Raised ValueError ''Failed to create PORT command: Invalid IP address'')
      else
        let p1 = port div 256;
            p2 = port mod 256
        in Inr (''PORT '' @ py_join '','' ip_parts @ '','' @ py_str p1 @ '','' @ py_str p2))"

definition ip_text :: "nat \<Rightarrow> nat \<Rightarrow> nat \<Rightarrow> nat \<Rightarrow> string" where
  \<comment> \<open>the dotted-decimal text of an IPv4 address given by its four octets\<close>
  "ip_text a b c d = str_nat a @ ''.'' @ str_nat b @ ''.'' @ str_nat c @ ''.'' @ str_nat d"

section \<open>Exceptions and the environment\<close>

text \<open>
  A computation takes a state and returns the value it produced or the exception it
  raised, with the state it left behind: what was mutated before a \<open>raise\<close> stays
  mutated. \<open>io_try\<close> is \<open>try ... except Exception\<close>, \<open>io_finally\<close> is \<open>finally\<close>.
\<close>

type_synonym ('a, 's) io = "'s \<Rightarrow> (py_exception + 'a) \<times> 's"

definition io_return :: "'a \<Rightarrow> ('a, 's) io" where
  "io_return x = (\<lambda>s. (Inr x, s))"

definition io_raise :: "py_exception \<Rightarrow> ('a, 's) io" where
  "io_raise e = (\<lambda>s. (Inl e, s))"

definition io_bind :: "('a, 's) io \<Rightarrow> ('a \<Rightarrow> ('b, 's) io) \<Rightarrow> ('b, 's) io" where
  "io_bind m f = (\<lambda>s. case m s of (Inl e, s') \<Rightarrow> (Inl e, s') | (Inr x, s') \<Rightarrow> f x s')"

definition io_try :: "('a, 's) io \<Rightarrow> (py_exception \<Rightarrow> ('a, 's) io) \<Rightarrow> ('a, 's) io" where
  "io_try m h = (\<lambda>s. case m s of (Inl e, s') \<Rightarrow> h e s' | (Inr x, s') \<Rightarrow> (Inr x, s'))"

definition io_finally :: "('a, 's) io \<Rightarrow> (unit, 's) io \<Rightarrow> ('a, 's) io" where
  "io_finally m fin =
     (\<lambda>s. case m s of
             (r, s') \<Rightarrow> (case fin s' of (Inl e, s'') \<Rightarrow> (Inl e, s'') | (Inr _, s'') \<Rightarrow> (r, s'')))"

definition io_get :: "('s, 's) io" where
  "io_get = (\<lambda>s. (Inr s, s))"

definition io_lift :: "py_exception + 'a \<Rightarrow> ('a, 's) io" where
  "io_lift r = (\<lambda>s. (r, s))"

definition str_exc :: "py_exception \<Rightarrow> string" where
  \<comment> \<open>\<open>str(e)\<close>\<close>
  "str_exc e = (case e of Raised k m \<Rightarrow> m)"

text \<open>
  The world outside the program. Sockets are numbered in the order of their creation;
  \<open>inbox w k\<close> holds the chunks that the peer of socket \<open>k\<close> will deliver to successive
  \<open>recv\<close> calls (an exhausted inbox is a closed connection: \<open>recv\<close> returns \<open>b''\<close>), and
  \<open>wire\<close> records what the program did on each socket and what each \<open>recv\<close> returned.
  \<open>faults\<close> is consumed by the calls that can fail in the environment, in program order:
  \<open>Some e\<close> makes the call raise \<open>e\<close>, \<open>None\<close> or an exhausted list lets it succeed.
  Logging and printing are left out.
\<close>

datatype sock_event = Connect string int | Bind | Listen | Accept nat | Send string
  | Recv string | Close

record world =
  faults :: "py_exception option list"
  sockets :: nat
  inbox :: "nat \<Rightarrow> string list"
  wire :: "(nat \<times> sock_event) list"
  files :: "string \<rightharpoonup> string"
  stdin :: "string list"
  clock :: nat

definition env_call :: "(unit, world) io" where
  "env_call w =
     (case faults w of
        [] \<Rightarrow> (Inr (), w)
      | None # fs \<Rightarrow> (Inr (), w\<lparr>faults := fs\<rparr>)
      | Some e # fs \<Rightarrow> (Inl e, w\<lparr>faults := fs\<rparr>))"

definition emit :: "nat \<Rightarrow> sock_event \<Rightarrow> (unit, world) io" where
  "emit k ev w = (Inr (), w\<lparr>wire := wire w @ [(k, ev)]\<rparr>)"

definition socket_new :: "(nat, world) io" where
  \<comment> \<open>\<open>socket.socket(AF_INET, SOCK_STREAM)\<close>\<close>
  "socket_new = io_bind env_call (\<lambda>_ w. (Inr (sockets w), w\<lparr>sockets := Suc (sockets w)\<rparr>))"

definition create_socket :: "(nat, world) io" where
  \<comment> \<open>\<open>NetworkUtils.create_socket\<close>: a new socket with a timeout set\<close>
  "create_socket = socket_new"

definition sock_connect :: "nat \<Rightarrow> string \<Rightarrow> int \<Rightarrow> (unit, world) io" where
  "sock_connect k host port = io_bind env_call (\<lambda>_. emit k (Connect host port))"

definition sock_send :: "nat \<Rightarrow> string \<Rightarrow> (unit, world) io" where
  "sock_send k data = io_bind env_call (\<lambda>_. emit k (Send data))"

definition sock_close :: "nat \<Rightarrow> (unit, world) io" where
  "sock_close k = io_bind env_call (\<lambda>_. emit k Close)"

definition sock_bind :: "nat \<Rightarrow> (unit, world) io" where
  "sock_bind k = io_bind env_call (\<lambda>_. emit k Bind)"

definition sock_listen :: "nat \<Rightarrow> (unit, world) io" where
  "sock_listen k = io_bind env_call (\<lambda>_. emit k Listen)"

definition sock_accept :: "nat \<Rightarrow> (nat, world) io" where
  "sock_accept k =
     io_bind env_call (\<lambda>_ w.
       (Inr (sockets w), w\<lparr>sockets := Suc (sockets w), wire := wire w @ [(k, Accept (sockets w))]\<rparr>))"

definition take_chunk :: "nat \<Rightarrow> string list \<Rightarrow> string \<times> string list" where
  \<comment> \<open>\<open>recv(n)\<close> returns at most \<open>n\<close> bytes of what has arrived; the rest stays queued\<close>
  "take_chunk n q =
     (case q of
        [] \<Rightarrow> ([], [])
      | c # cs \<Rightarrow>
          if c = [] then ([], q)
          else if length c \<le> n then (c, cs)
          else (take n c, drop n c # cs))"

definition sock_recv :: "nat \<Rightarrow> nat \<Rightarrow> (string, world) io" where
  "sock_recv k n =
     io_bind env_call (\<lambda>_ w.
       case take_chunk n (inbox w k) of
         (chunk, q) \<Rightarrow>
           (Inr chunk, w\<lparr>inbox := (inbox w)(k := q), wire := wire w @ [(k, Recv chunk)]\<rparr>))"

definition decode :: "string \<Rightarrow> (string, world) io" where
  \<comment> \<open>\<open>data.decode('utf-8')\<close>: the text of the bytes, or a fault for undecodable bytes\<close>
  "decode data = io_bind env_call (\<lambda>_. io_return data)"

definition file_open_wb :: "string \<Rightarrow> (unit, world) io" where
  \<comment> \<open>\<open>open(path, 'wb')\<close> creates the file or truncates it\<close>
  "file_open_wb path = io_bind env_call (\<lambda>_ w. (Inr (), w\<lparr>files := (files w)(path \<mapsto> [])\<rparr>))"

definition file_write :: "string \<Rightarrow> string \<Rightarrow> (unit, world) io" where
  "file_write path chunk =
     io_bind env_call (\<lambda>_ w.
       (Inr (), w\<lparr>files := (files w)(path \<mapsto> (case files w path of None \<Rightarrow> chunk | Some old \<Rightarrow> old @ chunk))\<rparr>))"

definition file_remove :: "string \<Rightarrow> (unit, world) io" where
  \<comment> \<open>\<open>os.remove(path)\<close> and \<open>Path.unlink()\<close>\<close>
  "file_remove path =
     io_bind env_call (\<lambda>_ w.
       case files w path of
         None \<Rightarrow> (Inl (Raised OSError (''[Errno 2] No such file or directory: '' @ py_repr path)), w)
       | Some _ \<Rightarrow> (Inr (), w\<lparr>files := (files w)(path := None)\<rparr>))"

definition file_open_rb :: "string \<Rightarrow> (string, world) io" where
  \<comment> \<open>\<open>open(path, 'rb')\<close>: the handle is the content still to be read\<close>
  "file_open_rb path =
     io_bind env_call (\<lambda>_ w.
       case files w path of
         None \<Rightarrow> (Inl (Raised OSError (''[Errno 2] No such file or directory: '' @ py_repr path)), w)
       | Some content \<Rightarrow> (Inr content, w))"

definition file_read :: "nat \<Rightarrow> string \<Rightarrow> (string \<times> string, world) io" where
  \<comment> \<open>\<open>f.read(n)\<close>: the chunk read and the handle after it\<close>
  "file_read n f = io_bind env_call (\<lambda>_. io_return (take n f, drop n f))"

definition file_size :: "string \<Rightarrow> (nat, world) io" where
  \<comment> \<open>\<open>path.stat().st_size\<close> and \<open>os.path.getsize(path)\<close>\<close>
  "file_size path =
     io_bind env_call (\<lambda>_ w.
       case files w path of
         None \<Rightarrow> (Inl (Raised OSError (''[Errno 2] No such file or directory: '' @ py_repr path)), w)
       | Some content \<Rightarrow> (Inr (length content), w))"

definition py_input :: "(string, world) io" where
  \<comment> \<open>\<open>input(prompt)\<close>: the next line of standard input, \<open>EOFError\<close> at its end\<close>
  "py_input w =
     (case stdin w of
        [] \<Rightarrow> (Inl (Raised EOFError ''EOF when reading a line''), w)
      | l # ls \<Rightarrow> (Inr l, w\<lparr>stdin := ls\<rparr>))"

definition py_basename :: "string \<Rightarrow> string" where
  \<comment> \<open>\<open>os.path.basename\<close> and \<open>Path.name\<close>: what follows the last slash\<close>
  "py_basename path = rev (takeWhile (\<lambda>c. c \<noteq> CHR ''/'') (rev path))"

section \<open>JSON values\<close>

datatype json = JNull | JBool bool | JInt int | JFloat string | JStr string
  | JList "json list" | JDict "(string \<times> json) list"

definition subscript :: "json \<Rightarrow> string \<Rightarrow> py_exception + json" where
  \<comment> \<open>\<open>value[key]\<close> for a string key: only a dict that holds the key answers\<close>
  "subscript v key =
     (case v of
        JDict kvs \<Rightarrow>
          (case map_of kvs key of
             None \<Rightarrow> Inl (Raised KeyError (py_repr key))
           | Some x \<Rightarrow> Inr x)
      | _ \<Rightarrow> Inl (Raised TypeError ''indices must be integers or the object is not subscriptable''))"

definition result_dict :: "string \<Rightarrow> string \<Rightarrow> string \<Rightarrow> json" where
  "result_dict st msg det =
     JDict [(''status'', JStr st), (''message'', JStr msg), (''details'', JStr det)]"

section \<open>The scan agent (clamav_agent.py)\<close>

record agent_config =
  command :: string
  temp_dir :: string
  timeout :: nat

text \<open>
  What \<open>subprocess.run\<close> did: the process ended with a return code and its captured
  standard output and standard error, or ran beyond the timeout (\<open>TimeoutExpired\<close> carries
  the output captured until then), or could not be run.
\<close>

datatype run_result = Completed int string string | RunTimeout string string
  | RunFailed py_exception

type_synonym runner = "(string \<rightharpoonup> string) \<Rightarrow> string list \<Rightarrow> nat \<Rightarrow> run_result"

definition scan_file :: "agent_config \<Rightarrow> runner \<Rightarrow> (string \<rightharpoonup> string) \<Rightarrow> string \<Rightarrow> json" where
  "scan_file cfg run fs file_path =
     (let cmd = [command cfg, ''--no-summary'', ''--infected'', file_path] in
      case run fs cmd (timeout cfg) of
        Completed returncode out err \<Rightarrow>
          if returncode = 0 then result_dict ''OK'' ''File is clean'' (py_strip out)
          else if returncode = 1 then result_dict ''INFECTED'' ''Virus detected'' (py_strip out)
          else result_dict ''ERROR'' ''Scan failed'' (py_strip err)
      | RunTimeout out err \<Rightarrow> result_dict ''ERROR'' ''Scan timeout'' ''Scan took too long''
      | RunFailed e \<Rightarrow> result_dict ''ERROR'' ''Scan failed'' (str_exc e))"

definition stalled_scanner :: runner where
  \<comment> \<open>a scanner that prints a warning and then runs beyond the timeout\<close>
  "stalled_scanner fs cmd t = RunTimeout ''LibClamAV Warning: database is old'' ''clamscan: stalled''"

definition default_agent_config :: agent_config where
  \<comment> \<open>the defaults of \<open>load_config\<close>\<close>
  "default_agent_config = \<lparr>command = ''clamscan'', temp_dir = ''./temp_files'', timeout = 60\<rparr>"

function receive_payload :: "nat \<Rightarrow> string \<Rightarrow> int \<Rightarrow> int \<Rightarrow> (int, world) io" where
  \<comment> \<open>the \<open>while received < file_size\<close> loop of \<open>handle_client\<close>\<close>
  "receive_payload sock path received fsize w =
     (if received < fsize then
        (case sock_recv sock (nat (min 8192 (fsize - received))) w of
           (Inl e, w1) \<Rightarrow> (Inl e, w1)
         | (Inr chunk, w1) \<Rightarrow>
             if chunk = [] then (Inr received, w1)
             else
               (case file_write path chunk w1 of
                  (Inl e, w2) \<Rightarrow> (Inl e, w2)
                | (Inr _, w2) \<Rightarrow> receive_payload sock path (received + int (length chunk)) fsize w2))
      else (Inr received, w))"
  by pat_completeness auto
termination
  by (relation "measure (\<lambda>(sock, path, received, fsize, w). nat (fsize - received))") auto

declare receive_payload.simps [simp del]

definition handle_client ::
  "agent_config \<Rightarrow> runner \<Rightarrow> (json \<Rightarrow> string) \<Rightarrow> nat \<Rightarrow> (unit, world) io" where
  "handle_client cfg run json_dumps client_socket =
     io_finally
       (io_try
          (io_bind (sock_recv client_socket 1024) (\<lambda>data.
           io_bind (decode data) (\<lambda>filename_msg.
           if \<not> py_startswith filename_msg ''FILENAME:'' then
             io_raise (Raised ValueError ''Invalid protocol: expected FILENAME'')
           else
           let filename = drop 9 filename_msg in
           io_bind (sock_send client_socket ''READY'') (\<lambda>_.
           io_bind (sock_recv client_socket 1024) (\<lambda>data.
           io_bind (decode data) (\<lambda>size_msg.
           if \<not> py_startswith size_msg ''SIZE:'' then
             io_raise (Raised ValueError ''Invalid protocol: expected SIZE'')
           else
           io_bind (io_lift (py_int (drop 5 size_msg))) (\<lambda>fsize.
           io_bind (sock_send client_socket ''READY'') (\<lambda>_.
           io_bind io_get (\<lambda>w.
           let temp_file_path = temp_dir cfg @ ''/scan_'' @ str_nat (clock w) @ ''_'' @ filename in
           io_bind (file_open_wb temp_file_path) (\<lambda>_.
           io_bind (receive_payload client_socket temp_file_path 0 fsize) (\<lambda>received.
           io_bind io_get (\<lambda>w'.
           let scan_result = scan_file cfg run (files w') temp_file_path in
           io_bind (sock_send client_socket (json_dumps scan_result)) (\<lambda>_.
           io_try (file_remove temp_file_path) (\<lambda>e. io_return ()))))))))))))))
          (\<lambda>e. io_try
                 (sock_send client_socket
                    (json_dumps (result_dict ''ERROR'' ''Server error'' (str_exc e))))
                 (\<lambda>_. io_return ())))
       (io_try (sock_close client_socket) (\<lambda>_. io_return ()))"

definition temp_path :: "agent_config \<Rightarrow> world \<Rightarrow> string \<Rightarrow> string" where
  \<comment> \<open>the name \<open>handle_client\<close> gives the temp file of a declared file name\<close>
  "temp_path cfg w filename = temp_dir cfg @ ''/scan_'' @ str_nat (clock w) @ ''_'' @ filename"

section \<open>The scan gateway client (network_utils.py)\<close>

function send_chunks :: "nat \<Rightarrow> string \<Rightarrow> nat \<Rightarrow> nat \<Rightarrow> (unit, world) io" where
  \<comment> \<open>the \<open>while sent < file_size\<close> loop that streams an open file to a socket\<close>
  "send_chunks sock f sent fsize w =
     (if sent < fsize then
        (case file_read 8192 f w of
           (Inl e, w1) \<Rightarrow> (Inl e, w1)
         | (Inr (chunk, f'), w1) \<Rightarrow>
             if chunk = [] then (Inr (), w1)
             else
               (case sock_send sock chunk w1 of
                  (Inl e, w2) \<Rightarrow> (Inl e, w2)
                | (Inr _, w2) \<Rightarrow> send_chunks sock f' (sent + length chunk) fsize w2))
      else (Inr (), w))"
  by pat_completeness auto
termination
  by (relation "measure (\<lambda>(sock, f, sent, fsize, w). fsize - sent)") (auto simp: neq_Nil_conv)

declare send_chunks.simps [simp del]

type_synonym loader = "string \<Rightarrow> py_exception + json"

definition scan_exchange :: "loader \<Rightarrow> string \<Rightarrow> string \<Rightarrow> int \<Rightarrow> (json, world) io" where
  \<comment> \<open>the \<open>try\<close> block of \<open>send_file_to_clamav\<close>: the exchange with the agent\<close>
  "scan_exchange json_loads file_path agent_host agent_port =
     io_bind create_socket (\<lambda>client_socket.
     io_bind (sock_connect client_socket agent_host agent_port) (\<lambda>_.
     let filename = py_basename file_path in
     io_bind (file_size file_path) (\<lambda>fsize.
     io_bind (sock_send client_socket (''FILENAME:'' @ filename)) (\<lambda>_.
     io_bind (sock_recv client_socket 1024) (\<lambda>response.
     if response \<noteq> ''READY'' then
       io_raise (Raised PlainException (''Unexpected response: b'' @ py_repr response))
     else
     io_bind (sock_send client_socket (''SIZE:'' @ str_nat fsize)) (\<lambda>_.
     io_bind (sock_recv client_socket 1024) (\<lambda>response.
     if response \<noteq> ''READY'' then
       io_raise (Raised PlainException (''Unexpected response: b'' @ py_repr response))
     else
     io_bind (file_open_rb file_path) (\<lambda>f.
     io_bind (send_chunks client_socket f 0 fsize) (\<lambda>_.
     io_bind (sock_recv client_socket 4096) (\<lambda>data.
     io_bind (decode data) (\<lambda>result_data.
     io_bind (io_lift (json_loads result_data)) (\<lambda>result.
     io_bind (sock_close client_socket) (\<lambda>_.
     io_return result)))))))))))))"

definition send_file_to_clamav ::
  "loader \<Rightarrow> string \<Rightarrow> string \<Rightarrow> int \<Rightarrow> (json, world) io" where
  "send_file_to_clamav json_loads file_path agent_host agent_port =
     io_bind io_get (\<lambda>w.
     if files w file_path = None then
       io_return (result_dict ''ERROR'' ''File not found'' (''File does not exist: '' @ file_path))
     else
       io_try
         (scan_exchange json_loads file_path agent_host agent_port)
         (\<lambda>e. io_return (result_dict ''ERROR'' ''Failed to scan file'' (str_exc e))))"

definition status_of :: "json \<Rightarrow> json option" where
  \<comment> \<open>the value a result carries under the key \<open>status\<close>, if it carries one\<close>
  "status_of r = (case subscript r ''status'' of Inl _ \<Rightarrow> None | Inr v \<Rightarrow> Some v)"

section \<open>The control session (ftp_client.py)\<close>

record client_config =
  ftp_host :: string
  ftp_port :: int
  ftp_username :: string
  ftp_password :: string
  agent_host :: string
  agent_port :: int

record client =
  config :: client_config
  control_socket :: "nat option"
  connected :: bool
  logged_in :: bool
  passive_mode :: bool
  current_dir :: string
  transfer_mode :: string
  prompt_mode :: bool

type_synonym state = "client \<times> world"

definition get_self :: "(client, state) io" where
  "get_self = (\<lambda>(c, w). (Inr c, (c, w)))"

definition set_self :: "(client \<Rightarrow> client) \<Rightarrow> (unit, state) io" where
  "set_self f = (\<lambda>(c, w). (Inr (), (f c, w)))"

definition on_world :: "('a, world) io \<Rightarrow> ('a, state) io" where
  "on_world m = (\<lambda>(c, w). case m w of (r, w') \<Rightarrow> (r, (c, w')))"

definition client_init :: "client_config \<Rightarrow> bool \<Rightarrow> client" where
  \<comment> \<open>\<open>__init__\<close>; the second argument is \<open>config['client']['passive_mode']\<close>\<close>
  "client_init cfg pasv =
     \<lparr>config = cfg, control_socket = None, connected = False, logged_in = False,
      passive_mode = pasv, current_dir = ''/'', transfer_mode = ''binary'', prompt_mode = True\<rparr>"

definition connect :: "string option \<Rightarrow> int option \<Rightarrow> (bool, state) io" where
  "connect host_arg port_arg =
     io_bind get_self (\<lambda>c0.
     let host = (case host_arg of None \<Rightarrow> ftp_host (config c0) | Some h \<Rightarrow> h);
         port = (case port_arg of None \<Rightarrow> ftp_port (config c0) | Some p \<Rightarrow> p)
     in
     io_try
       (io_bind (on_world socket_new) (\<lambda>k.
        io_bind (set_self (\<lambda>c. c\<lparr>control_socket := Some k\<rparr>)) (\<lambda>_.
        io_bind (on_world (sock_connect k host port)) (\<lambda>_.
        io_try
          (io_bind (on_world (sock_recv k 1024)) (\<lambda>welcome_data.
           io_bind (on_world (decode welcome_data)) (\<lambda>decoded.
           let welcome_text = py_strip decoded in
           if py_startswith welcome_text ''220'' then
             io_bind (set_self (\<lambda>c. c\<lparr>connected := True\<rparr>)) (\<lambda>_. io_return True)
           else io_return False)))
          (\<lambda>e. case e of
                  Raised SocketTimeout _ \<Rightarrow> io_return False
                | _ \<Rightarrow> io_raise e)))))
       (\<lambda>e. io_return False))"

definition send_command :: "string \<Rightarrow> (unit, state) io" where
  "send_command cmd =
     io_bind get_self (\<lambda>c.
     if \<not> connected c then io_raise (Raised PlainException ''Not connected to server'')
     else
       (case control_socket c of
          None \<Rightarrow> io_raise (Raised AttributeError ''NoneType object has no attribute send'')
        | Some k \<Rightarrow> on_world (sock_send k (cmd @ [CHR 0x0D, CHR 0x0A]))))"

definition receive_response :: "(FTPResponse, state) io" where
  "receive_response =
     io_try
       (io_bind get_self (\<lambda>c.
        case control_socket c of
          None \<Rightarrow> io_raise (Raised AttributeError ''NoneType object has no attribute recv'')
        | Some k \<Rightarrow>
            io_bind (on_world (sock_recv k 1024)) (\<lambda>response_data.
            io_bind (on_world (decode response_data)) (\<lambda>decoded.
            let response_text = py_strip decoded in
            io_lift (FTPResponse_init response_text)))))
       (\<lambda>e. io_raise (Raised PlainException (''Failed to receive response: '' @ str_exc e)))"

definition login :: "string option \<Rightarrow> string option \<Rightarrow> (bool, state) io" where
  "login username_arg password_arg =
     io_bind get_self (\<lambda>c0.
     if \<not> connected c0 then io_return False
     else
     let username = (case username_arg of None \<Rightarrow> ftp_username (config c0) | Some u \<Rightarrow> u);
         password = (case password_arg of None \<Rightarrow> ftp_password (config c0) | Some p \<Rightarrow> p)
     in
     io_try
       (io_bind
          (io_try
             (io_bind (send_command ''AUTH TLS'') (\<lambda>_.
              io_bind receive_response (\<lambda>auth_response. io_return ())))
             (\<lambda>e. io_return ())) (\<lambda>_.
        io_bind (send_command (''USER '' @ username)) (\<lambda>_.
        io_bind receive_response (\<lambda>response.
        io_bind
          (if code response = Some 331 then
             io_bind (send_command (''PASS '' @ password)) (\<lambda>_. receive_response)
           else if code response = Some 503 then
             io_bind (send_command (''USER '' @ username)) (\<lambda>_.
             io_bind receive_response (\<lambda>response2.
             if code response2 = Some 331 then
               io_bind (send_command (''PASS '' @ password)) (\<lambda>_. receive_response)
             else io_return response2))
           else io_return response) (\<lambda>final.
        if is_positive final then
          io_bind (set_self (\<lambda>c. c\<lparr>logged_in := True\<rparr>)) (\<lambda>_. io_return True)
        else io_return False)))))
       (\<lambda>e. io_return False))"

definition disconnect :: "(unit, state) io" where
  "disconnect =
     io_bind get_self (\<lambda>c0.
     if connected c0 then
       io_finally
         (io_try
            (io_bind
               (if logged_in c0 then
                  io_bind (send_command ''QUIT'') (\<lambda>_.
                  io_bind receive_response (\<lambda>_. io_return ()))
                else io_return ()) (\<lambda>_.
             case control_socket c0 of
               None \<Rightarrow> io_raise (Raised AttributeError ''NoneType object has no attribute close'')
             | Some k \<Rightarrow> on_world (sock_close k)))
            (\<lambda>e. io_return ()))
         (set_self (\<lambda>c. c\<lparr>connected := False, logged_in := False, control_socket := None\<rparr>))
     else io_return ())"

definition py_lower_is :: "string \<Rightarrow> string \<Rightarrow> bool" where
  \<comment> \<open>\<open>s.lower() == t\<close> for a lower-case ASCII word \<open>t\<close>\<close>
  "py_lower_is s t =
     (length s = length t \<and>
      list_all2 (\<lambda>a b. a = b \<or> (of_char a :: nat) + 32 = of_char b \<and> 65 \<le> (of_char a :: nat)
                        \<and> (of_char a :: nat) \<le> 90) s t)"

definition set_transfer_mode :: "string \<Rightarrow> (unit, state) io" where
  "set_transfer_mode mode =
     io_bind
       (if py_lower_is mode ''ascii'' then
          io_bind (send_command ''TYPE A'') (\<lambda>_. set_self (\<lambda>c. c\<lparr>transfer_mode := ''ascii''\<rparr>))
        else
          io_bind (send_command ''TYPE I'') (\<lambda>_. set_self (\<lambda>c. c\<lparr>transfer_mode := ''binary''\<rparr>)))
       (\<lambda>_. io_bind receive_response (\<lambda>response. io_return ()))"

definition toggle_passive_mode :: "(unit, state) io" where
  "toggle_passive_mode = set_self (\<lambda>c. c\<lparr>passive_mode := \<not> passive_mode c\<rparr>)"

definition open_passive_data_connection :: "(nat, state) io" where
  "open_passive_data_connection =
     io_bind (send_command ''PASV'') (\<lambda>_.
     io_bind receive_response (\<lambda>response.
     if \<not> is_positive response then
       io_raise (Raised PlainException (''PASV failed: '' @ message response))
     else
       (case parse_pasv_response (message response) of
          None \<Rightarrow>
            io_raise (Raised PlainException (''Failed to parse PASV response: '' @ message response))
        | Some (host, port) \<Rightarrow>
            io_bind (on_world create_socket) (\<lambda>data_socket.
            io_bind (on_world (sock_connect data_socket host port)) (\<lambda>_.
            io_return data_socket)))))"

definition open_active_data_connection :: "string \<Rightarrow> int \<Rightarrow> (nat, state) io" where
  \<comment> \<open>the arguments are what \<open>getsockname()\<close> reports: the local address of the control
      socket and the port the new socket was bound to\<close>
  "open_active_data_connection client_host port =
     io_bind (on_world create_socket) (\<lambda>data_socket.
     io_bind (on_world (sock_bind data_socket)) (\<lambda>_.
     io_bind (on_world (sock_listen data_socket)) (\<lambda>_.
     io_bind get_self (\<lambda>c.
     if control_socket c = None then
       io_raise (Raised AttributeError ''NoneType object has no attribute getsockname'')
     else
     io_bind (io_lift (create_port_command client_host port)) (\<lambda>port_command.
     io_bind (send_command port_command) (\<lambda>_.
     io_bind receive_response (\<lambda>response.
     if \<not> is_positive response then
       io_bind (on_world (sock_close data_socket)) (\<lambda>_.
       io_raise (Raised PlainException (''PORT failed: '' @ message response)))
     else io_return data_socket)))))))"

record local_addr =
  local_host :: string
  local_port :: int

definition open_data_connection :: "local_addr \<Rightarrow> (nat, state) io" where
  "open_data_connection la =
     io_bind get_self (\<lambda>c.
     if passive_mode c then open_passive_data_connection
     else open_active_data_connection (local_host la) (local_port la))"

definition scan_file_for_virus :: "loader \<Rightarrow> string \<Rightarrow> (json, state) io" where
  "scan_file_for_virus json_loads file_path =
     io_bind get_self (\<lambda>c.
     on_world (send_file_to_clamav json_loads file_path
                 (agent_host (config c)) (agent_port (config c))))"

section \<open>Transfers (network_utils.py, ftp_commands.py)\<close>

definition queued :: "world \<Rightarrow> nat \<Rightarrow> nat" where
  \<comment> \<open>how much the peer of a socket has still to deliver\<close>
  "queued w k = sum_list (map (\<lambda>c. Suc (length c)) (inbox w k))"

function recv_to_file :: "nat \<Rightarrow> string \<Rightarrow> (unit, world) io" where
  \<comment> \<open>the \<open>while True\<close> loop of \<open>receive_file_via_socket\<close>: it ends when the peer closes\<close>
  "recv_to_file sock path w =
     (case sock_recv sock 8192 w of
        (Inl e, w1) \<Rightarrow> (Inl e, w1)
      | (Inr chunk, w1) \<Rightarrow>
          if chunk = [] then (Inr (), w1)
          else
            (case file_write path chunk w1 of
               (Inl e, w2) \<Rightarrow> (Inl e, w2)
             | (Inr _, w2) \<Rightarrow> recv_to_file sock path w2))"
  by pat_completeness auto
termination
  by (relation "measure (\<lambda>(sock, path, w). queued w sock)")
     (auto simp: queued_def sock_recv_def file_write_def io_bind_def env_call_def take_chunk_def
           split: list.splits option.splits if_splits)

declare recv_to_file.simps [simp del]

definition receive_file_via_socket :: "nat \<Rightarrow> string \<Rightarrow> (bool, world) io" where
  "receive_file_via_socket sock file_path =
     io_try
       (io_bind (file_open_wb file_path) (\<lambda>_.
        io_bind (recv_to_file sock file_path) (\<lambda>_.
        io_return True)))
       (\<lambda>e. io_return False)"

definition send_file_via_socket :: "nat \<Rightarrow> string \<Rightarrow> (bool, world) io" where
  "send_file_via_socket sock file_path =
     io_try
       (io_bind (file_size file_path) (\<lambda>total_size.
        io_bind (file_open_rb file_path) (\<lambda>f.
        io_bind (send_chunks sock f 0 total_size) (\<lambda>_.
        io_return True))))
       (\<lambda>e. io_return False)"

definition check_connection :: "(bool, state) io" where
  "check_connection =
     io_bind get_self (\<lambda>c.
     if \<not> connected c then io_return False
     else if \<not> logged_in c then io_return False
     else io_return True)"

definition cmd_get :: "local_addr \<Rightarrow> string list \<Rightarrow> (unit, state) io" where
  "cmd_get la args =
     io_bind check_connection (\<lambda>ok.
     if \<not> ok then io_return ()
     else
       (case args of
          [] \<Rightarrow> io_return ()
        | remote_file # rest \<Rightarrow>
            let local_file = (case rest of [] \<Rightarrow> remote_file | l # _ \<Rightarrow> l) in
            io_try
              (io_bind (open_data_connection la) (\<lambda>data_socket.
               io_bind (send_command (''RETR '' @ remote_file)) (\<lambda>_.
               io_bind receive_response (\<lambda>response.
               if is_positive_preliminary response then
                 io_bind get_self (\<lambda>c.
                 io_bind (if \<not> passive_mode c then on_world (sock_accept data_socket)
                          else io_return data_socket) (\<lambda>data_socket.
                 io_bind (on_world (receive_file_via_socket data_socket local_file)) (\<lambda>success.
                 io_bind (on_world (sock_close data_socket)) (\<lambda>_.
                 io_bind receive_response (\<lambda>response.
                 if success \<and> is_positive response then io_return ()
                 else io_try (on_world (file_remove local_file)) (\<lambda>e. io_return ()))))))
               else
                 io_bind (on_world (sock_close data_socket)) (\<lambda>_. io_return ())))))
              (\<lambda>e. io_return ())))"

definition scan_gate :: "loader \<Rightarrow> string \<Rightarrow> (bool, state) io" where
  \<comment> \<open>step 1 of \<open>cmd_put\<close>: scan, then decide; \<open>False\<close> is the \<open>return\<close> that ends the command\<close>
  "scan_gate json_loads local_file =
     io_bind (scan_file_for_virus json_loads local_file) (\<lambda>scan_result.
     io_bind (io_lift (subscript scan_result ''status'')) (\<lambda>st.
     if st = JStr ''INFECTED'' then
       io_bind (io_lift (subscript scan_result ''message'')) (\<lambda>_.
       io_bind (io_lift (subscript scan_result ''details'')) (\<lambda>_.
       io_return False))
     else if st = JStr ''ERROR'' then
       io_bind (io_lift (subscript scan_result ''message'')) (\<lambda>_.
       io_bind (on_world py_input) (\<lambda>confirm.
       if \<not> py_lower_is confirm ''y'' then io_return False
       else io_return True))
     else io_return True))"

definition cmd_put :: "loader \<Rightarrow> local_addr \<Rightarrow> string list \<Rightarrow> (unit, state) io" where
  "cmd_put json_loads la args =
     io_bind check_connection (\<lambda>ok.
     if \<not> ok then io_return ()
     else
       (case args of
          [] \<Rightarrow> io_return ()
        | local_file # rest \<Rightarrow>
            let remote_file = (case rest of [] \<Rightarrow> py_basename local_file | r # _ \<Rightarrow> r) in
            io_bind (on_world io_get) (\<lambda>w.
            if files w local_file = None then io_return ()
            else
              io_try
                (io_bind (scan_gate json_loads local_file) (\<lambda>proceed.
                 if \<not> proceed then io_return ()
                 else
                 io_bind (open_data_connection la) (\<lambda>data_socket.
                 io_bind (send_command (''STOR '' @ remote_file)) (\<lambda>_.
                 io_bind receive_response (\<lambda>response.
                 if is_positive_preliminary response then
                   io_bind get_self (\<lambda>c.
                   io_bind (if \<not> passive_mode c then on_world (sock_accept data_socket)
                            else io_return data_socket) (\<lambda>data_socket.
                   io_bind (on_world (file_size local_file)) (\<lambda>fsize.
                   io_bind (on_world (send_file_via_socket data_socket local_file)) (\<lambda>success.
                   io_bind (on_world (sock_close data_socket)) (\<lambda>_.
                   io_bind receive_response (\<lambda>response.
                   io_return ()))))))
                 else
                   io_bind (on_world (sock_close data_socket)) (\<lambda>_. io_return ()))))))
                (\<lambda>e. io_return ()))))"

datatype operation =
    Op_connect "string option" "int option"
  | Op_login "string option" "string option"
  | Op_disconnect
  | Op_send_command string
  | Op_receive_response
  | Op_set_transfer_mode string
  | Op_toggle_passive_mode
  | Op_open_data_connection local_addr
  | Op_cmd_get local_addr "string list"
  | Op_cmd_put loader local_addr "string list"

definition after :: "('a, state) io \<Rightarrow> state \<Rightarrow> state" where
  \<comment> \<open>the state an operation leaves, whether it returned or raised\<close>
  "after m s = snd (m s)"

fun run_op :: "operation \<Rightarrow> state \<Rightarrow> state" where
  "run_op (Op_connect h p) s = after (connect h p) s"
| "run_op (Op_login u p) s = after (login u p) s"
| "run_op Op_disconnect s = after disconnect s"
| "run_op (Op_send_command cmd) s = after (send_command cmd) s"
| "run_op Op_receive_response s = after receive_response s"
| "run_op (Op_set_transfer_mode m) s = after (set_transfer_mode m) s"
| "run_op Op_toggle_passive_mode s = after toggle_passive_mode s"
| "run_op (Op_open_data_connection la) s = after (open_data_connection la) s"
| "run_op (Op_cmd_get la args) s = after (cmd_get la args) s"
| "run_op (Op_cmd_put ld la args) s = after (cmd_put ld la args) s"

definition session_inv :: "client \<Rightarrow> bool" where
  "session_inv c = (logged_in c \<longrightarrow> connected c)"

section \<open>Session flags\<close>

text \<open>
  \<open>relates R m\<close>: whatever \<open>m\<close> does, returning or raising, the client it leaves is
  related by \<open>R\<close> to the client it started from.
\<close>

definition relates :: "(client \<Rightarrow> client \<Rightarrow> bool) \<Rightarrow> ('a, state) io \<Rightarrow> bool" where
  "relates R m = (\<forall>c w r c' w'. m (c, w) = (r, (c', w')) \<longrightarrow> R c c')"

definition same_flags :: "client \<Rightarrow> client \<Rightarrow> bool" where
  "same_flags c c' = (connected c' = connected c \<and> logged_in c' = logged_in c)"

definition same_connected :: "client \<Rightarrow> client \<Rightarrow> bool" where
  "same_connected c c' = (connected c' = connected c)"



definition next_fault :: "py_exception option list \<Rightarrow> py_exception option" where
  \<comment> \<open>what the next call into the environment will meet\<close>
  "next_fault fs = (case fs of [] \<Rightarrow> None | f # _ \<Rightarrow> f)"

section \<open>Observing a run\<close>

definition quiet :: "world \<Rightarrow> world \<Rightarrow> bool" where
  \<comment> \<open>between the two worlds no call into the environment met a fault\<close>
  "quiet w w' =
     (\<exists>n. faults w' = drop n (faults w) \<and> list_all (\<lambda>f. f = None) (take n (faults w)))"

fun received :: "nat \<Rightarrow> (nat \<times> sock_event) list \<Rightarrow> string list" where
  \<comment> \<open>what the \<open>recv\<close> calls on one socket returned, in order\<close>
  "received k [] = []"
| "received k ((j, Recv d) # evs) = (if j = k then d # received k evs else received k evs)"
| "received k (_ # evs) = received k evs"

definition new_events :: "world \<Rightarrow> world \<Rightarrow> (nat \<times> sock_event) list" where
  \<comment> \<open>the socket events of a run from the first world to the second\<close>
  "new_events w w' = drop (length (wire w)) (wire w')"

definition stepped :: "nat \<Rightarrow> world \<Rightarrow> (nat \<times> sock_event) list \<Rightarrow> world \<Rightarrow> bool" where
  \<comment> \<open>a fault-free stretch of a run that touched socket \<open>k\<close> only\<close>
  "stepped k w evs w' =
     (quiet w w' \<and> wire w' = wire w @ evs \<and> list_all (\<lambda>e. fst e = k) evs
      \<and> sockets w' = sockets w \<and> files w' = files w \<and> stdin w' = stdin w
      \<and> clock w' = clock w \<and> inbox w' = (inbox w)(k := inbox w' k))"

definition digit_group :: "string \<Rightarrow> bool" where
  \<comment> \<open>what one group of the pattern matches: a non-empty run of decimal digits\<close>
  "digit_group g = (g \<noteq> [] \<and> list_all is_decimal g)"

definition sextuple :: "nat \<Rightarrow> nat \<Rightarrow> nat \<Rightarrow> nat \<Rightarrow> int \<Rightarrow> string" where
  \<comment> \<open>the six numbers of an address and port, separated by commas\<close>
  "sextuple a b c d port =
     str_nat a @ '','' @ str_nat b @ '','' @ str_nat c @ '','' @ str_nat d @ '','' @
     str_nat (nat (port div 256)) @ '','' @ str_nat (nat (port mod 256))"

section \<open>Example sessions\<close>

definition demo_config :: client_config where
  \<comment> \<open>the defaults of \<open>load_config\<close>\<close>
  "demo_config =
     \<lparr>ftp_host = ''127.0.0.1'', ftp_port = 21, ftp_username = ''testuser'',
      ftp_password = ''testpass'', agent_host = ''127.0.0.1'', agent_port = 9999\<rparr>"

definition demo_client :: client where
  "demo_client = client_init demo_config True"

definition quiet_world :: "(nat \<Rightarrow> string list) \<Rightarrow> world" where
  \<comment> \<open>a world with no socket yet, no fault to come and the given peers\<close>
  "quiet_world peers =
     \<lparr>faults = [], sockets = 0, inbox = peers, wire = [], files = Map.empty, stdin = [],
      clock = 0\<rparr>"



definition session_world :: world where
  \<comment> \<open>a server that greets, accepts the login and answers \<open>QUIT\<close>\<close>
  "session_world =
     quiet_world (\<lambda>k. if k = 0
        then [''220 Service ready'', ''502 no TLS'', ''331 need password'', ''230 logged in'',
              ''221 bye'']
        else [])"

definition logged_in_session :: state where
  \<comment> \<open>the session after \<open>connect()\<close> and \<open>login()\<close> against that server\<close>
  "logged_in_session =
     run_op (Op_login None None) (run_op (Op_connect None None) (demo_client, session_world))"

definition quoted :: "string \<Rightarrow> string" where
  "quoted s = CHR 0x22 # s @ [CHR 0x22]"

definition infected_reply :: string where
  \<comment> \<open>the JSON text an agent sends for an infected file\<close>
  "infected_reply =
     ''{'' @ quoted ''status'' @ '': '' @ quoted ''INFECTED'' @ '', '' @
     quoted ''message'' @ '': '' @ quoted ''Virus detected'' @ '', '' @
     quoted ''details'' @ '': '' @ quoted ''eicar.txt: Eicar FOUND'' @ ''}''"

definition infected_result :: json where
  "infected_result = result_dict ''INFECTED'' ''Virus detected'' ''eicar.txt: Eicar FOUND''"

definition demo_loader :: loader where
  \<comment> \<open>a loader that knows the reply above and rejects every other text\<close>
  "demo_loader t =
     (if t = infected_reply then Inr infected_result
      else Inl (Raised JSONDecodeError ''Expecting value''))"

definition upload_world :: "string list \<Rightarrow> world" where
  \<comment> \<open>a logged-in client (control socket 0) about to upload \<open>eicar.txt\<close>; the next socket
      it opens reaches the agent, which sends the given replies\<close>
  "upload_world agent_replies =
     \<lparr>faults = [], sockets = 1, inbox = (\<lambda>k. if k = 1 then agent_replies else []),
      wire = [], files = [''eicar.txt'' \<mapsto> ''X5O!P%@AP''], stdin = [], clock = 0\<rparr>"

definition infected_world :: world where
  "infected_world = upload_world [''READY'', ''READY'', infected_reply]"

definition garbled_world :: world where
  \<comment> \<open>the agent answers the payload with a text that is no JSON\<close>
  "garbled_world = upload_world [''READY'', ''READY'', ''scan finished'']"

definition busy_world :: world where
  \<comment> \<open>the agent answers the file name with something else than \<open>READY\<close>\<close>
  "busy_world = upload_world [''BUSY'']"

definition upload_client :: client where
  "upload_client = demo_client\<lparr>control_socket := Some 0, connected := True, logged_in := True\<rparr>"

definition demo_addr :: local_addr where
  "demo_addr = \<lparr>local_host = ''127.0.0.1'', local_port = 50000\<rparr>"

definition agent_world :: "string list \<Rightarrow> py_exception option list \<Rightarrow> world" where
  \<comment> \<open>the agent has accepted a connection as socket 0; the client sends the given chunks\<close>
  "agent_world chunks fs =
     \<lparr>faults = fs, sockets = 1, inbox = (\<lambda>k. if k = 0 then chunks else []), wire = [],
      files = Map.empty, stdin = [], clock = 7\<rparr>"

definition reset_world :: world where
  \<comment> \<open>the connection is reset after the first two bytes of a payload of five: the tenth
      call into the environment, the second \<open>recv\<close> of the payload loop, raises\<close>
  "reset_world =
     agent_world [''FILENAME:a.txt'', ''SIZE:5'', ''he'']
       (replicate 9 None @ [Some (Raised OSError ''Connection reset by peer'')])"

definition deaf_world :: world where
  \<comment> \<open>the whole payload arrives, and sending the scan result fails: the twelfth call\<close>
  "deaf_world =
     agent_world [''FILENAME:a.txt'', ''SIZE:5'', ''he'', ''llo'']
       (replicate 11 None @ [Some (Raised OSError ''Broken pipe'')])"

definition calm_world :: world where
  \<comment> \<open>the same exchange with no failure\<close>
  "calm_world = agent_world [''FILENAME:a.txt'', ''SIZE:5'', ''he'', ''llo''] []"

definition download_world :: "string list \<Rightarrow> py_exception option list \<Rightarrow> world" where
  \<comment> \<open>a logged-in client (control socket 0) about to download in passive mode; the data
      connection will be socket 1 and delivers \<open>abc\<close>\<close>
  "download_world control_replies fs =
     \<lparr>faults = fs, sockets = 1,
      inbox = (\<lambda>k. if k = 0 then control_replies else if k = 1 then [''abc''] else []),
      wire = [], files = Map.empty, stdin = [], clock = 0\<rparr>"

definition broken_download_world :: world where
  \<comment> \<open>the data connection is reset after \<open>abc\<close> (the twelfth call) and reading the
      completion reply times out (the fourteenth)\<close>
  "broken_download_world =
     download_world [''227 Entering Passive Mode (127,0,0,1,4,1)'', ''150 Opening data connection'']
       (replicate 11 None @ [Some (Raised OSError ''Connection reset by peer''), None,
          Some (Raised SocketTimeout ''timed out'')])"

definition aborted_download_world :: world where
  \<comment> \<open>the data connection is reset after \<open>abc\<close> and the server reports the abort\<close>
  "aborted_download_world =
     download_world [''227 Entering Passive Mode (127,0,0,1,4,1)'', ''150 Opening data connection'',
                     ''426 Connection closed; transfer aborted'']
       (replicate 11 None @ [Some (Raised OSError ''Connection reset by peer'')])"

section \<open>Digits and integers\<close>

lemma below_ten: "d < 10 \<Longrightarrow> d \<in> {0, 1, 2, 3, 4, 5, 6, 7, 8, 9::nat}"
  by auto

lemma is_decimal_digit_char: "d < 10 \<Longrightarrow> is_decimal (digit_char d)"
  by (drule below_ten) (auto simp: is_decimal_def digit_char_def)

lemma digit_val_digit_char: "d < 10 \<Longrightarrow> digit_val (digit_char d) = d"
  by (drule below_ten) (auto simp: digit_val_def digit_char_def)

lemma str_nat_decimal: "list_all is_decimal (str_nat n)"
proof (induction n rule: str_nat.induct)
  case (1 n)
  show ?case
  proof (cases "n < 10")
    case True
    then show ?thesis by (simp add: str_nat.simps [of n] is_decimal_digit_char)
  next
    case False
    with 1 show ?thesis by (simp add: str_nat.simps [of n] is_decimal_digit_char)
  qed
qed

lemma str_nat_nonempty: "str_nat n \<noteq> []"
  by (simp add: str_nat.simps [of n])

lemma nat_of_digits_snoc: "nat_of_digits (s @ [c]) = 10 * nat_of_digits s + digit_val c"
  by (simp add: nat_of_digits_def)

lemma nat_of_digits_str_nat: "nat_of_digits (str_nat n) = n"
proof (induction n rule: str_nat.induct)
  case (1 n)
  show ?case
  proof (cases "n < 10")
    case True
    then show ?thesis
      by (simp add: str_nat.simps [of n] nat_of_digits_def digit_val_digit_char)
  next
    case False
    with 1 show ?thesis
      by (simp add: str_nat.simps [of n] nat_of_digits_snoc digit_val_digit_char)
  qed
qed

lemma strip_underscores_decimal:
  "s \<noteq> [] \<Longrightarrow> list_all is_decimal s \<Longrightarrow> strip_underscores s = Some s"
proof (induction s rule: strip_underscores.induct)
  case 1
  then show ?case by simp
next
  case (2 c)
  then show ?case by simp
next
  case (3 c d r)
  have "d \<noteq> CHR ''_''" using 3(4) by (auto simp: is_decimal_def)
  with 3 show ?case by simp
qed

lemma decimal_not_space: "is_decimal c \<Longrightarrow> \<not> int_space c"
  by (auto simp: is_decimal_def int_space_def)

lemma decimal_not_sign: "is_decimal c \<Longrightarrow> c \<noteq> CHR ''-'' \<and> c \<noteq> CHR ''+''"
  by (auto simp: is_decimal_def)

lemma dropWhile_id_hd: "s \<noteq> [] \<Longrightarrow> \<not> P (hd s) \<Longrightarrow> dropWhile P s = s"
  by (cases s) auto

lemma trim_decimal:
  assumes "s \<noteq> []" "list_all is_decimal s"
  shows "dropWhile int_space (rev (dropWhile int_space (rev s))) = s"
proof -
  have all: "\<forall>c \<in> set s. \<not> int_space c"
    using assms(2) by (auto simp: list_all_iff decimal_not_space)
  have "hd (rev s) \<in> set s" using assms(1) by (metis hd_in_set set_rev rev_is_Nil_conv)
  then have "dropWhile int_space (rev s) = rev s"
    using all assms(1) by (intro dropWhile_id_hd) auto
  moreover have "dropWhile int_space s = s"
    using all assms(1) by (intro dropWhile_id_hd) auto
  ultimately show ?thesis by simp
qed

lemma py_int_decimal:
  assumes "s \<noteq> []" "list_all is_decimal s"
  shows "py_int s = Inr (int (nat_of_digits s))"
proof -
  obtain c r where s: "s = c # r" using assms(1) by (cases s) auto
  have c: "is_decimal c" using assms(2) s by simp
  have body: "strip_underscores (c # r) = Some (c # r)"
    using strip_underscores_decimal [OF assms] s by simp
  show ?thesis
    unfolding py_int_def trim_decimal [OF assms] Let_def
    using decimal_not_sign [OF c] body by (simp add: s)
qed

lemma py_int_str_nat: "py_int (str_nat n) = Inr (int n)"
  by (simp add: py_int_decimal str_nat_nonempty str_nat_decimal nat_of_digits_str_nat)

lemma digits_then_run:
  assumes "ds \<noteq> []" "list_all is_decimal ds" "\<not> is_decimal sep"
  shows "digits_then sep (ds @ sep # rest) = Some (ds, rest)"
proof -
  have a: "\<forall>c \<in> set ds. is_decimal c" using assms(2) by (simp add: list_all_iff)
  have "takeWhile is_decimal (ds @ sep # rest) = ds"
    using a assms(3) by (simp add: takeWhile_append2)
  moreover have "dropWhile is_decimal (ds @ sep # rest) = sep # rest"
    using a assms(3) by (simp add: dropWhile_append2)
  ultimately show ?thesis using assms(1) by (simp add: digits_then_def)
qed

lemma digits_then_str_nat:
  "\<not> is_decimal sep \<Longrightarrow> digits_then sep (str_nat n @ sep # rest) = Some (str_nat n, rest)"
  by (rule digits_then_run) (simp_all add: str_nat_nonempty str_nat_decimal)

lemma digits_then_Some:
  "digits_then sep s = Some (ds, rest) \<Longrightarrow> ds \<noteq> [] \<and> list_all is_decimal ds"
  by (auto simp: digits_then_def Let_def list_all_iff split: list.splits if_splits dest: set_takeWhileD)

section \<open>Reading the passive-mode reply\<close>

lemma digits_then_group: "digits_then sep s = Some (ds, rest) \<Longrightarrow> digit_group ds"
  using digits_then_Some by (simp add: digit_group_def)

lemma match_here_Some:
  assumes "match_here s = Some g"
  shows "\<exists>g1 g2 g3 g4 g5 g6. g = [g1, g2, g3, g4, g5, g6] \<and> list_all digit_group g"
  using assms
  by (auto simp: match_here_def split: list.splits if_splits Option.bind_splits
           dest!: digits_then_group)

lemma re_search_Some:
  "re_search s = Some g \<Longrightarrow>
     \<exists>g1 g2 g3 g4 g5 g6. g = [g1, g2, g3, g4, g5, g6] \<and> list_all digit_group g"
proof (induction s)
  case Nil
  then show ?case using match_here_Some by simp
next
  case (Cons c cs)
  show ?case
  proof (cases "match_here (c # cs)")
    case None
    with Cons show ?thesis by simp
  next
    case (Some g')
    with Cons.prems have "g' = g" by simp
    with Some show ?thesis using match_here_Some by blast
  qed
qed

lemma map_int_groups:
  "list_all digit_group gs \<Longrightarrow> map_int gs = Inr (map (\<lambda>g. int (nat_of_digits g)) gs)"
  by (induction gs) (simp_all add: digit_group_def py_int_decimal)

lemma py_str_nonneg: "py_str (int n) = str_nat n"
  by (simp add: py_str_def)

lemma parse_pasv_of_groups:
  assumes "re_search s = Some [h1, h2, h3, h4, p1, p2]"
  shows "parse_pasv_response s =
           Some (str_nat (nat_of_digits h1) @ ''.'' @ str_nat (nat_of_digits h2) @ ''.'' @
                 str_nat (nat_of_digits h3) @ ''.'' @ str_nat (nat_of_digits h4),
                 int (nat_of_digits p1) * 256 + int (nat_of_digits p2))"
proof -
  have "list_all digit_group [h1, h2, h3, h4, p1, p2]"
    using re_search_Some [OF assms] by auto
  then have "map_int [h1, h2, h3, h4, p1, p2] =
               Inr (map (\<lambda>g. int (nat_of_digits g)) [h1, h2, h3, h4, p1, p2])"
    by (rule map_int_groups)
  then show ?thesis
    using assms by (simp add: parse_pasv_response_def parse_pasv_body_def py_str_nonneg)
qed




text \<open>An octet above 255 and a port above 65535 are returned as they are.\<close>

lemma pasv_example1: "re_search ''(999,0,0,1,300,7)'' = Some [''999'', ''0'', ''0'', ''1'', ''300'', ''7'']"
  by (simp add: match_here_def digits_then_def is_decimal_def)

lemma pasv_example2: "parse_pasv_response ''(999,0,0,1,300,7)'' = Some (''999.0.0.1'', 76807)"
  using parse_pasv_of_groups [OF pasv_example1]
  by (simp add: nat_of_digits_def digit_val_def str_nat.simps digit_char_def)


section \<open>The PORT command and back\<close>

lemma py_split_plain: "sep \<notin> set s \<Longrightarrow> py_split sep s = [s]"
  by (induction s) auto

lemma py_split_append:
  "sep \<notin> set s \<Longrightarrow> py_split sep (s @ sep # rest) = s # py_split sep rest"
  by (induction s) auto

lemma dot_not_decimal: "\<not> is_decimal CHR ''.''"
  by (simp add: is_decimal_def)

lemma comma_not_decimal: "\<not> is_decimal CHR '',''"
  by (simp add: is_decimal_def)

lemma paren_not_decimal: "\<not> is_decimal CHR '')''"
  by (simp add: is_decimal_def)

lemma str_nat_no_dot: "CHR ''.'' \<notin> set (str_nat n)"
  using str_nat_decimal [of n] dot_not_decimal by (auto simp: list_all_iff)

lemma py_split_ip_text:
  "py_split CHR ''.'' (ip_text a b c d) = [str_nat a, str_nat b, str_nat c, str_nat d]"
  by (simp add: ip_text_def py_split_append py_split_plain str_nat_no_dot)

lemma create_port_command_ip_text:
  assumes "0 \<le> port"
  shows "create_port_command (ip_text a b c d) port = Inr (''PORT '' @ sextuple a b c d port)"
proof -
  have "0 \<le> port div 256" "0 \<le> port mod 256" using assms by simp_all
  then have "py_str (port div 256) = str_nat (nat (port div 256))"
    "py_str (port mod 256) = str_nat (nat (port mod 256))"
    by (simp_all add: py_str_def)
  then show ?thesis
    by (simp add: create_port_command_def py_split_ip_text sextuple_def)
qed

lemma match_here_sextuple:
  "match_here (''('' @ str_nat a @ '','' @ str_nat b @ '','' @ str_nat c @ '','' @ str_nat d @ '','' @
                 str_nat e @ '','' @ str_nat f @ '')'' @ rest) =
     Some [str_nat a, str_nat b, str_nat c, str_nat d, str_nat e, str_nat f]"
  by (simp add: match_here_def digits_then_str_nat comma_not_decimal paren_not_decimal)

lemma re_search_skip:
  "CHR ''('' \<notin> set pre \<Longrightarrow> re_search (pre @ CHR ''('' # s) = re_search (CHR ''('' # s)"
  by (induction pre) (auto simp: match_here_def)

lemma parse_pasv_sextuple:
  assumes "0 \<le> port" "CHR ''('' \<notin> set pre"
  shows "parse_pasv_response (pre @ ''('' @ sextuple a b c d port @ '')'' @ post) =
           Some (ip_text a b c d, port)"
proof -
  let ?e = "nat (port div 256)" and ?f = "nat (port mod 256)"
  let ?s = "''('' @ sextuple a b c d port @ '')'' @ post"
  have m: "match_here ?s =
             Some [str_nat a, str_nat b, str_nat c, str_nat d, str_nat ?e, str_nat ?f]"
    using match_here_sextuple [of a b c d ?e ?f post] by (simp add: sextuple_def)
  have "re_search (pre @ ?s) = re_search ?s"
    using re_search_skip [OF assms(2)] by simp
  also have "\<dots> = Some [str_nat a, str_nat b, str_nat c, str_nat d, str_nat ?e, str_nat ?f]"
    using m by simp
  finally have r: "re_search (pre @ ?s) =
      Some [str_nat a, str_nat b, str_nat c, str_nat d, str_nat ?e, str_nat ?f]" .
  have "0 \<le> port div 256" "0 \<le> port mod 256" using assms(1) by simp_all
  then have "int ?e * 256 + int ?f = port" by simp
  then show ?thesis
    using parse_pasv_of_groups [OF r] by (simp add: nat_of_digits_str_nat ip_text_def)
qed

text \<open>
  C8. For the four octets of an IPv4 address and a port from 0 to 65535,
  \<open>create_port_command\<close> writes the six numbers separated by commas, with
  \<open>p1 = port // 256\<close> and \<open>p2 = port % 256\<close>, and \<open>parse_pasv_response\<close> reads the
  same six numbers in parentheses back to the address and port they came from.
\<close>

theorem port_pasv_round_trip:
  assumes "a \<le> 255" "b \<le> 255" "c \<le> 255" "d \<le> 255" "0 \<le> port" "port \<le> 65535"
  shows "\<exists>six. create_port_command (ip_text a b c d) port = Inr (''PORT '' @ six)
           \<and> six = py_join '','' [str_nat a, str_nat b, str_nat c, str_nat d,
                                  py_str (port div 256), py_str (port mod 256)]
           \<and> parse_pasv_response (''('' @ six @ '')'') = Some (ip_text a b c d, port)
           \<and> parse_pasv_response (''227 Entering Passive Mode ('' @ six @ '')'')
                 = Some (ip_text a b c d, port)"
proof -
  have nn: "0 \<le> port div 256" "0 \<le> port mod 256" using assms(5) by simp_all
  have six: "sextuple a b c d port =
      py_join '','' [str_nat a, str_nat b, str_nat c, str_nat d,
                    py_str (port div 256), py_str (port mod 256)]"
    using nn by (simp add: sextuple_def py_str_def)
  have p1: "parse_pasv_response (''('' @ sextuple a b c d port @ '')'') = Some (ip_text a b c d, port)"
    using parse_pasv_sextuple [OF assms(5), of "[]" a b c d "[]"] by simp
  have p2: "parse_pasv_response (''227 Entering Passive Mode ('' @ sextuple a b c d port @ '')'')
              = Some (ip_text a b c d, port)"
    using parse_pasv_sextuple [OF assms(5), of "''227 Entering Passive Mode ''" a b c d "[]"]
    by simp
  show ?thesis
    using create_port_command_ip_text [OF assms(5), of a b c d] six p1 p2 by auto
qed

text \<open>
  The address 192.168.1.100 with port 5141 corresponds to \<open>(192,168,1,100,20,21)\<close>.
\<close>

theorem port_pasv_round_trip_witness:
  "create_port_command ''192.168.1.100'' 5141 = Inr ''PORT 192,168,1,100,20,21''
   \<and> parse_pasv_response ''(192,168,1,100,20,21)'' = Some (''192.168.1.100'', 5141)
   \<and> parse_pasv_response ''227 Entering Passive Mode (192,168,1,100,20,21)''
        = Some (''192.168.1.100'', 5141)"
  using port_pasv_round_trip [of 192 168 1 100 5141]
  by (simp add: ip_text_def str_nat.simps digit_char_def py_str_def)

section \<open>Classifying replies\<close>

lemma py_split_head: "\<exists>rest. py_split sep s = takeWhile (\<lambda>c. c \<noteq> sep) s # rest"
  by (induction s) (auto split: list.splits)

lemma py_rstrip_Cons: "\<not> py_isspace a \<Longrightarrow> py_rstrip (a # s) = a # py_rstrip s"
  by (simp add: py_rstrip_def dropWhile_append)

lemma py_strip_Cons: "\<not> py_isspace a \<Longrightarrow> py_strip (a # s) = a # py_rstrip s"
  by (simp add: py_strip_def py_rstrip_Cons)

lemma decimal_not_isspace: "is_decimal c \<Longrightarrow> \<not> py_isspace c"
  by (auto simp: is_decimal_def py_isspace_def)

lemma decimal_not_newline: "is_decimal c \<Longrightarrow> c \<noteq> CHR 0x0A"
  by (auto simp: is_decimal_def)

lemma decimal_isdigit: "is_decimal c \<Longrightarrow> py_isdigit_char c"
  by (simp add: py_isdigit_char_def)

lemma first_line_three_digits:
  assumes "is_decimal a" "is_decimal b" "is_decimal c"
  shows "\<exists>x. first_line (a # b # c # rest) = a # b # c # x"
  using assms
  by (simp add: first_line_def py_strip_Cons py_rstrip_Cons decimal_not_isspace
        decimal_not_newline)

lemma FTPResponse_init_first_line:
  "FTPResponse_init t =
     (let fl = first_line t;
          r0 = \<lparr>raw = t, lines = py_split CHR 0x0A (py_strip t), code = None, message = []\<rparr>
      in if length fl \<ge> 3 \<and> py_isdigit (take 3 fl) then
           (case py_int (take 3 fl) of
              Inl e \<Rightarrow> Inl e
            | Inr n \<Rightarrow> Inr (r0\<lparr>code := Some n,
                               message := (if length fl > 3 then drop 4 fl else [])\<rparr>))
         else Inr r0)"
proof -
  obtain rest where "py_split CHR 0x0A (py_strip t) = first_line t # rest"
    using py_split_head [of "CHR 0x0A" "py_strip t"] by (auto simp: first_line_def)
  then show ?thesis by (simp add: FTPResponse_init_def Let_def)
qed

lemma classification_of_code:
  assumes "code r = Some n" "100 \<le> n" "n \<le> 599"
  shows "is_positive_preliminary r = (n < 200) \<and> is_positive r = (200 \<le> n \<and> n < 300)
         \<and> is_positive_intermediate r = (300 \<le> n \<and> n < 400) \<and> is_error r = (400 \<le> n)
         \<and> count_list (classification r) True = 1"
  using assms
  by (auto simp: classification_def is_positive_preliminary_def is_positive_def
        is_positive_intermediate_def is_error_def truthy_code_def)

lemma classification_no_code:
  assumes "code r = None"
  shows "\<not> is_positive_preliminary r \<and> \<not> is_positive r \<and> \<not> is_positive_intermediate r
         \<and> \<not> is_error r"
  using assms
  by (simp add: is_positive_preliminary_def is_positive_def
        is_positive_intermediate_def is_error_def truthy_code_def)

lemma FTPResponse_no_code:
  assumes "\<not> (3 \<le> length (first_line t) \<and> py_isdigit (take 3 (first_line t)))"
  shows "FTPResponse_init t =
           Inr \<lparr>raw = t, lines = py_split CHR 0x0A (py_strip t), code = None, message = []\<rparr>"
  unfolding FTPResponse_init_first_line Let_def using assms by (rule if_not_P)

lemma FTPResponse_three_digits:
  assumes "3 \<le> length line" "list_all is_decimal (take 3 line)"
  shows "\<exists>r. FTPResponse_init line = Inr r \<and> code r = Some (int (nat_of_digits (take 3 line)))"
proof -
  obtain a b c rest where line: "line = a # b # c # rest"
    using assms(1) by (cases line; cases "tl line"; cases "tl (tl line)") auto
  have d: "is_decimal a" "is_decimal b" "is_decimal c" using assms(2) line by simp_all
  obtain x where fl: "first_line (a # b # c # rest) = a # b # c # x"
    using first_line_three_digits [OF d] by blast
  have i: "py_int [a, b, c] = Inr (int (nat_of_digits [a, b, c]))"
    using d by (intro py_int_decimal) simp_all
  have g: "py_isdigit [a, b, c]"
    using d by (simp add: py_isdigit_def decimal_isdigit)
  show ?thesis
    unfolding line FTPResponse_init_first_line fl Let_def using i g by simp
qed

text \<open>
  C4, as the code has it. A reply whose first three characters are decimal digits that
  form a code from 100 to 599 is parsed to that code, and exactly one of the four
  predicates holds of it: \<open>is_positive_preliminary\<close> for 1xx, \<open>is_positive\<close> for 2xx,
  \<open>is_positive_intermediate\<close> for 3xx, \<open>is_error\<close> for 4xx and 5xx. A reply whose first
  line, once the blanks around the text are stripped, is shorter than three characters or
  has a character among its first three that \<open>isdigit\<close> rejects is parsed with no code,
  and none of the four predicates holds.
\<close>

theorem FTPResponse_classification:
  "(3 \<le> length line \<and> list_all is_decimal (take 3 line)
      \<and> 100 \<le> nat_of_digits (take 3 line) \<and> nat_of_digits (take 3 line) \<le> 599
    \<longrightarrow> (\<exists>r. FTPResponse_init line = Inr r
            \<and> code r = Some (int (nat_of_digits (take 3 line)))
            \<and> count_list (classification r) True = 1
            \<and> is_positive_preliminary r = (nat_of_digits (take 3 line) < 200)
            \<and> is_positive r = (200 \<le> nat_of_digits (take 3 line) \<and> nat_of_digits (take 3 line) < 300)
            \<and> is_positive_intermediate r
                = (300 \<le> nat_of_digits (take 3 line) \<and> nat_of_digits (take 3 line) < 400)
            \<and> is_error r = (400 \<le> nat_of_digits (take 3 line))))
   \<and> (\<not> (3 \<le> length (first_line line) \<and> py_isdigit (take 3 (first_line line)))
    \<longrightarrow> (\<exists>r. FTPResponse_init line = Inr r \<and> code r = None
            \<and> count_list (classification r) True = 0))"
proof (intro conjI impI)
  assume h: "3 \<le> length line \<and> list_all is_decimal (take 3 line)
      \<and> 100 \<le> nat_of_digits (take 3 line) \<and> nat_of_digits (take 3 line) \<le> 599"
  then obtain r where r: "FTPResponse_init line = Inr r"
      "code r = Some (int (nat_of_digits (take 3 line)))"
    using FTPResponse_three_digits by blast
  from h have "100 \<le> int (nat_of_digits (take 3 line))" "int (nat_of_digits (take 3 line)) \<le> 599"
    by simp_all
  from classification_of_code [OF r(2) this] r
  show "\<exists>r. FTPResponse_init line = Inr r
            \<and> code r = Some (int (nat_of_digits (take 3 line)))
            \<and> count_list (classification r) True = 1
            \<and> is_positive_preliminary r = (nat_of_digits (take 3 line) < 200)
            \<and> is_positive r = (200 \<le> nat_of_digits (take 3 line) \<and> nat_of_digits (take 3 line) < 300)
            \<and> is_positive_intermediate r
                = (300 \<le> nat_of_digits (take 3 line) \<and> nat_of_digits (take 3 line) < 400)
            \<and> is_error r = (400 \<le> nat_of_digits (take 3 line))"
    by auto
next
  assume "\<not> (3 \<le> length (first_line line) \<and> py_isdigit (take 3 (first_line line)))"
  then have "FTPResponse_init line =
      Inr \<lparr>raw = line, lines = py_split CHR 0x0A (py_strip line), code = None, message = []\<rparr>"
    by (rule FTPResponse_no_code)
  then show "\<exists>r. FTPResponse_init line = Inr r \<and> code r = None
            \<and> count_list (classification r) True = 0"
    by (simp add: classification_def is_positive_preliminary_def is_positive_def
        is_positive_intermediate_def is_error_def truthy_code_def)
qed

text \<open>The reply \<open>220 Service ready\<close> is positive and nothing else; \<open>hello\<close> has no code.\<close>

theorem FTPResponse_classification_witness:
  "(\<exists>r. FTPResponse_init ''220 Service ready'' = Inr r \<and> code r = Some 220
       \<and> count_list (classification r) True = 1 \<and> is_positive r \<and> \<not> is_error r)
   \<and> (\<exists>r. FTPResponse_init ''hello'' = Inr r \<and> code r = None
       \<and> count_list (classification r) True = 0)"
proof -
  have a: "nat_of_digits (take 3 ''220 Service ready'') = 220"
    by (simp add: nat_of_digits_def digit_val_def)
  have b: "list_all is_decimal (take 3 ''220 Service ready'')"
    by (simp add: is_decimal_def)
  have c: "\<not> (3 \<le> length (first_line ''hello'') \<and> py_isdigit (take 3 (first_line ''hello'')))"
    by (simp add: first_line_def py_strip_def py_rstrip_def py_isspace_def py_isdigit_def
        py_isdigit_char_def is_decimal_def)
  show ?thesis
    using FTPResponse_classification [of "''220 Service ready''"]
      FTPResponse_classification [of "''hello''"] a b c
    by auto
qed

text \<open>
  C4 as stated fails for a reply that begins with a blank: its first three characters are
  not three digits, yet \<open>strip()\<close> removes the blank before the code is read, so the code
  is 220 and \<open>is_positive\<close> holds.
\<close>

theorem FTPResponse_leading_blank_counterexample:
  "\<not> list_all is_decimal (take 3 '' 220 ok'')
   \<and> FTPResponse_init '' 220 ok''
       = Inr \<lparr>raw = '' 220 ok'', lines = [''220 ok''], code = Some 220, message = ''ok''\<rparr>
   \<and> is_positive \<lparr>raw = '' 220 ok'', lines = [''220 ok''], code = Some 220, message = ''ok''\<rparr>"
  by (simp add: FTPResponse_init_def py_strip_def py_rstrip_def py_isspace_def py_isdigit_def
      py_isdigit_char_def is_decimal_def py_int_def int_space_def nat_of_digits_def digit_val_def
      is_positive_def truthy_code_def)

text \<open>
  Three superscript digits pass \<open>isdigit()\<close> and are refused by \<open>int()\<close>: the constructor
  raises \<open>ValueError\<close> instead of leaving the code absent.
\<close>

lemma FTPResponse_superscript_digits:
  "\<exists>m. FTPResponse_init [CHR 0xB2, CHR 0xB2, CHR 0xB2] = Inl (Raised ValueError m)"
  by (simp add: FTPResponse_init_def py_strip_def py_rstrip_def py_isspace_def py_isdigit_def
      py_isdigit_char_def is_decimal_def py_int_def int_space_def)

section \<open>Scanner outcomes\<close>

text \<open>
  C5, as the code has it. With the scanner run on the file: return code 0 gives status OK
  and return code 1 gives status INFECTED, each with the stripped standard output as
  details; any other return code gives status ERROR with the stripped standard error as
  details; a timeout gives status ERROR with the fixed details text
  \<open>Scan took too long\<close>.
\<close>

theorem scan_file_mapping:
  "(run fs [command cfg, ''--no-summary'', ''--infected'', p] (timeout cfg) = Completed 0 out err
      \<longrightarrow> scan_file cfg run fs p = result_dict ''OK'' ''File is clean'' (py_strip out))
   \<and> (run fs [command cfg, ''--no-summary'', ''--infected'', p] (timeout cfg) = Completed 1 out err
      \<longrightarrow> scan_file cfg run fs p = result_dict ''INFECTED'' ''Virus detected'' (py_strip out))
   \<and> (run fs [command cfg, ''--no-summary'', ''--infected'', p] (timeout cfg) = Completed rc out err
        \<and> rc \<noteq> 0 \<and> rc \<noteq> 1
      \<longrightarrow> scan_file cfg run fs p = result_dict ''ERROR'' ''Scan failed'' (py_strip err))
   \<and> (run fs [command cfg, ''--no-summary'', ''--infected'', p] (timeout cfg) = RunTimeout out err
      \<longrightarrow> scan_file cfg run fs p = result_dict ''ERROR'' ''Scan timeout'' ''Scan took too long'')"
  by (simp add: scan_file_def)

text \<open>One run for each of the four outcomes.\<close>

theorem scan_file_mapping_witness:
  "scan_file default_agent_config (\<lambda>fs cmd t. Completed 0 '' '' ''x'') Map.empty ''f''
     = result_dict ''OK'' ''File is clean'' ''''
   \<and> scan_file default_agent_config (\<lambda>fs cmd t. Completed 1 ''f: Eicar FOUND'' ''x'') Map.empty ''f''
     = result_dict ''INFECTED'' ''Virus detected'' ''f: Eicar FOUND''
   \<and> scan_file default_agent_config (\<lambda>fs cmd t. Completed 2 ''o'' ''no database'') Map.empty ''f''
     = result_dict ''ERROR'' ''Scan failed'' ''no database''
   \<and> scan_file default_agent_config stalled_scanner Map.empty ''f''
     = result_dict ''ERROR'' ''Scan timeout'' ''Scan took too long''"
  using scan_file_mapping [of "\<lambda>fs cmd t. Completed 0 '' '' ''x''" Map.empty default_agent_config
          "''f''" "'' ''" "''x''" 2]
        scan_file_mapping [of "\<lambda>fs cmd t. Completed 1 ''f: Eicar FOUND'' ''x''" Map.empty
          default_agent_config "''f''" "''f: Eicar FOUND''" "''x''" 2]
        scan_file_mapping [of "\<lambda>fs cmd t. Completed 2 ''o'' ''no database''" Map.empty
          default_agent_config "''f''" "''o''" "''no database''" 2]
        scan_file_mapping [of stalled_scanner Map.empty default_agent_config "''f''"
          "''LibClamAV Warning: database is old''" "''clamscan: stalled''" 2]
  by (simp add: stalled_scanner_def py_strip_def py_rstrip_def py_isspace_def)

text \<open>
  C5 as stated fails on a timeout: what the scanner printed before the timeout is
  dropped, and the details field holds the fixed text.
\<close>

theorem scan_file_timeout_counterexample:
  "stalled_scanner Map.empty
       [command default_agent_config, ''--no-summary'', ''--infected'', ''./temp_files/scan_7_a.txt'']
       (timeout default_agent_config)
     = RunTimeout ''LibClamAV Warning: database is old'' ''clamscan: stalled''
   \<and> subscript (scan_file default_agent_config stalled_scanner Map.empty ''./temp_files/scan_7_a.txt'')
        ''details'' = Inr (JStr ''Scan took too long'')"
  by (simp add: stalled_scanner_def scan_file_def result_dict_def subscript_def)

section \<open>Operations keep the session flags\<close>

lemma relatesD: "relates R m \<Longrightarrow> m (c, w) = (r, (c', w')) \<Longrightarrow> R c c'"
  unfolding relates_def by blast

lemma relates_return: "(\<And>c. R c c) \<Longrightarrow> relates R (io_return x)"
  by (simp add: relates_def io_return_def)

lemma relates_raise: "(\<And>c. R c c) \<Longrightarrow> relates R (io_raise e)"
  by (simp add: relates_def io_raise_def)

lemma relates_lift: "(\<And>c. R c c) \<Longrightarrow> relates R (io_lift v)"
  by (simp add: relates_def io_lift_def)

lemma relates_get_self: "(\<And>c. R c c) \<Longrightarrow> relates R get_self"
  by (simp add: relates_def get_self_def)

lemma relates_on_world: "(\<And>c. R c c) \<Longrightarrow> relates R (on_world m)"
  by (auto simp: relates_def on_world_def split: prod.splits)

lemma relates_set_self: "(\<And>c. R c (f c)) \<Longrightarrow> relates R (set_self f)"
  by (simp add: relates_def set_self_def)

lemma relates_bind:
  assumes "\<And>a b c. R a b \<Longrightarrow> R b c \<Longrightarrow> R a c" "relates R m" "\<And>x. relates R (f x)"
  shows "relates R (io_bind m f)"
  unfolding relates_def
proof (intro allI impI)
  fix c w r c' w'
  assume run: "io_bind m f (c, w) = (r, (c', w'))"
  obtain r1 c1 w1 where m: "m (c, w) = (r1, (c1, w1))" by (metis prod.exhaust)
  have a: "R c c1" using relatesD [OF assms(2) m] .
  show "R c c'"
  proof (cases r1)
    case (Inl e)
    with run m have "c' = c1" by (simp add: io_bind_def)
    with a show ?thesis by simp
  next
    case (Inr x)
    with run m have "f x (c1, w1) = (r, (c', w'))" by (simp add: io_bind_def)
    then have "R c1 c'" using relatesD [OF assms(3)] by blast
    with a show ?thesis using assms(1) by blast
  qed
qed

lemma relates_try:
  assumes "\<And>a b c. R a b \<Longrightarrow> R b c \<Longrightarrow> R a c" "relates R m" "\<And>e. relates R (h e)"
  shows "relates R (io_try m h)"
  unfolding relates_def
proof (intro allI impI)
  fix c w r c' w'
  assume run: "io_try m h (c, w) = (r, (c', w'))"
  obtain r1 c1 w1 where m: "m (c, w) = (r1, (c1, w1))" by (metis prod.exhaust)
  have a: "R c c1" using relatesD [OF assms(2) m] .
  show "R c c'"
  proof (cases r1)
    case (Inl e)
    with run m have "h e (c1, w1) = (r, (c', w'))" by (simp add: io_try_def)
    then have "R c1 c'" using relatesD [OF assms(3)] by blast
    with a show ?thesis using assms(1) by blast
  next
    case (Inr x)
    with run m have "c' = c1" by (simp add: io_try_def)
    with a show ?thesis by simp
  qed
qed

lemma same_flags_refl: "same_flags c c"
  by (simp add: same_flags_def)

lemma same_flags_trans: "same_flags a b \<Longrightarrow> same_flags b c \<Longrightarrow> same_flags a c"
  by (simp add: same_flags_def)

lemmas keep_rules =
  relates_return [of same_flags, OF same_flags_refl]
  relates_raise [of same_flags, OF same_flags_refl]
  relates_lift [of same_flags, OF same_flags_refl]
  relates_get_self [of same_flags, OF same_flags_refl]
  relates_on_world [of same_flags, OF same_flags_refl]
  relates_bind [of same_flags, OF same_flags_trans]
  relates_try [of same_flags, OF same_flags_trans]

lemma keep_send_command: "relates same_flags (send_command cmd)"
  unfolding send_command_def
  by (auto intro!: keep_rules split: option.splits)

lemma keep_receive_response: "relates same_flags receive_response"
  unfolding receive_response_def Let_def
  by (auto intro!: keep_rules split: option.splits)

lemma keep_set_transfer_mode: "relates same_flags (set_transfer_mode mode)"
  unfolding set_transfer_mode_def
  by (auto intro!: keep_rules keep_send_command keep_receive_response relates_set_self
        simp: same_flags_def)

lemma keep_toggle_passive_mode: "relates same_flags toggle_passive_mode"
  unfolding toggle_passive_mode_def
  by (auto intro!: relates_set_self simp: same_flags_def)

lemma keep_open_passive: "relates same_flags open_passive_data_connection"
  unfolding open_passive_data_connection_def
  by (auto intro!: keep_rules keep_send_command keep_receive_response split: option.splits)

lemma keep_open_active: "relates same_flags (open_active_data_connection h p)"
  unfolding open_active_data_connection_def
  by (auto intro!: keep_rules keep_send_command keep_receive_response)

lemma keep_open_data_connection: "relates same_flags (open_data_connection la)"
  unfolding open_data_connection_def
  by (auto intro!: keep_rules keep_open_passive keep_open_active)

lemma keep_check_connection: "relates same_flags check_connection"
  unfolding check_connection_def
  by (auto intro!: keep_rules)

lemma keep_cmd_get: "relates same_flags (cmd_get la args)"
  unfolding cmd_get_def Let_def
  by (auto intro!: keep_rules keep_check_connection keep_open_data_connection
        keep_send_command keep_receive_response split: list.splits)

lemma keep_scan_gate: "relates same_flags (scan_gate ld f)"
  unfolding scan_gate_def scan_file_for_virus_def
  by (auto intro!: keep_rules)

lemma keep_cmd_put: "relates same_flags (cmd_put ld la args)"
  unfolding cmd_put_def Let_def
  by (auto intro!: keep_rules keep_check_connection keep_open_data_connection keep_scan_gate
        keep_send_command keep_receive_response split: list.splits)

section \<open>Reading the fault script\<close>

lemma env_call_alt:
  "env_call w =
     (case next_fault (faults w) of
        None \<Rightarrow> (Inr (), w\<lparr>faults := tl (faults w)\<rparr>)
      | Some e \<Rightarrow> (Inl e, w\<lparr>faults := tl (faults w)\<rparr>))"
  by (auto simp: env_call_def next_fault_def split: list.splits option.splits)

lemma clean_4:
  "list_all (\<lambda>f. f = None) (take 4 fs) \<longleftrightarrow>
     next_fault fs = None \<and> next_fault (tl fs) = None \<and> next_fault (tl (tl fs)) = None
     \<and> next_fault (tl (tl (tl fs))) = None"
  by (auto simp: next_fault_def numeral_eq_Suc split: list.splits)

lemma if_apply: "(if b then f else g) x = (if b then f x else g x)"
  by simp

lemmas io_defs = io_bind_def io_try_def io_finally_def io_return_def io_raise_def io_lift_def
  io_get_def get_self_def set_self_def on_world_def if_apply

lemmas env_defs = socket_new_def create_socket_def sock_connect_def sock_send_def
  sock_close_def sock_bind_def sock_listen_def sock_accept_def sock_recv_def decode_def emit_def
  env_call_alt

lemma connect_run:
  assumes "connect host port (c, w) = (r, (c', w'))"
  shows "logged_in c' = logged_in c
    \<and> (list_all (\<lambda>f. f = None) (take 4 (faults w))
         \<and> py_startswith (py_strip (fst (take_chunk 1024 (inbox w (sockets w))))) ''220''
        \<longrightarrow> r = Inr True \<and> connected c')
    \<and> (\<not> (list_all (\<lambda>f. f = None) (take 4 (faults w))
         \<and> py_startswith (py_strip (fst (take_chunk 1024 (inbox w (sockets w))))) ''220'')
        \<longrightarrow> r = Inr False \<and> connected c' = connected c)"
proof (cases "next_fault (faults w)")
  case (Some e)
  with assms show ?thesis
    by (auto simp: connect_def Let_def io_defs env_defs clean_4)
next
  case n1: None
  show ?thesis
  proof (cases "next_fault (tl (faults w))")
    case (Some e)
    with assms n1 show ?thesis
      by (auto simp: connect_def Let_def io_defs env_defs clean_4)
  next
    case n2: None
    show ?thesis
    proof (cases "next_fault (tl (tl (faults w)))")
      case (Some e)
      with assms n1 n2 show ?thesis
        by (cases e; cases "case e of Raised k m \<Rightarrow> k")
           (auto simp: connect_def Let_def io_defs env_defs clean_4)
    next
      case n3: None
      show ?thesis
      proof (cases "next_fault (tl (tl (tl (faults w))))")
        case (Some e)
        with assms n1 n2 n3 show ?thesis
          by (cases e; cases "case e of Raised k m \<Rightarrow> k")
             (auto simp: connect_def Let_def io_defs env_defs clean_4 split: prod.splits)
      next
        case n4: None
        with assms n1 n2 n3 show ?thesis
          by (auto simp: connect_def Let_def io_defs env_defs clean_4 split: prod.splits if_splits)
      qed
    qed
  qed
qed

section \<open>Stripped text and three-digit codes\<close>















section \<open>The session invariant\<close>

lemma same_flags_connected: "relates same_flags m \<Longrightarrow> relates same_connected m"
  by (simp add: relates_def same_flags_def same_connected_def)

lemma same_connected_refl: "same_connected c c"
  by (simp add: same_connected_def)

lemma same_connected_trans: "same_connected a b \<Longrightarrow> same_connected b c \<Longrightarrow> same_connected a c"
  by (simp add: same_connected_def)

lemmas conn_rules =
  relates_return [of same_connected, OF same_connected_refl]
  relates_raise [of same_connected, OF same_connected_refl]
  relates_bind [of same_connected, OF same_connected_trans]
  relates_try [of same_connected, OF same_connected_trans]
  same_flags_connected [OF keep_send_command]
  same_flags_connected [OF keep_receive_response]

lemma relates_if: "relates R m \<Longrightarrow> relates R n \<Longrightarrow> relates R (if b then m else n)"
  by simp

lemma login_same_connected: "relates same_connected (login u p)"
  unfolding login_def Let_def
  apply (intro conn_rules relates_if relates_set_self
      relates_get_self [of same_connected, OF same_connected_refl])
  apply (simp_all add: same_connected_def)
  done

lemma login_not_connected:
  "\<not> connected c \<Longrightarrow> login u p (c, w) = (Inr False, (c, w))"
  by (simp add: login_def io_defs)

lemma login_run:
  assumes "login u p (c, w) = (r, (c', w'))"
  shows "connected c' = connected c \<and> (logged_in c' \<longrightarrow> logged_in c \<or> connected c)"
proof (cases "connected c")
  case True
  with relatesD [OF login_same_connected assms] show ?thesis by (simp add: same_connected_def)
next
  case False
  with assms login_not_connected [OF False, of u p w] show ?thesis by simp
qed

lemma bind_get_self: "io_bind get_self f (c, w) = f c (c, w)"
  by (simp add: io_bind_def get_self_def)

lemma io_finally_set_self:
  "io_finally m (set_self g) s = (r, (c', w')) \<Longrightarrow> \<exists>c1. c' = g c1"
  by (auto simp: io_finally_def set_self_def split: prod.splits)

lemma disconnect_run:
  assumes "disconnect (c, w) = (r, (c', w'))"
  shows "(connected c \<longrightarrow> \<not> connected c' \<and> \<not> logged_in c')
       \<and> (\<not> connected c \<longrightarrow> c' = c)"
proof (cases "connected c")
  case False
  with assms show ?thesis by (simp add: disconnect_def bind_get_self if_apply io_return_def)
next
  case True
  with assms show ?thesis
    by (auto simp: disconnect_def bind_get_self if_apply dest!: io_finally_set_self)
qed

lemma keep_session_inv:
  assumes "relates same_flags m" "session_inv (fst s)"
  shows "session_inv (fst (after m s))"
proof -
  obtain c w where s: "s = (c, w)" by (cases s)
  obtain r c' w' where run: "m (c, w) = (r, (c', w'))" by (metis prod.exhaust)
  from relatesD [OF assms(1) run] assms(2) show ?thesis
    by (simp add: s run after_def same_flags_def session_inv_def)
qed

lemma connect_session_inv:
  assumes "session_inv (fst s)"
  shows "session_inv (fst (after (connect h p) s))"
proof -
  obtain c w where s: "s = (c, w)" by (cases s)
  obtain r c' w' where run: "connect h p (c, w) = (r, (c', w'))" by (metis prod.exhaust)
  from connect_run [OF run] assms show ?thesis
    by (auto simp: s run after_def session_inv_def)
qed

lemma login_session_inv:
  assumes "session_inv (fst s)"
  shows "session_inv (fst (after (login u p) s))
       \<and> (logged_in (fst (after (login u p) s)) \<and> \<not> logged_in (fst s) \<longrightarrow> connected (fst s))"
proof -
  obtain c w where s: "s = (c, w)" by (cases s)
  obtain r c' w' where run: "login u p (c, w) = (r, (c', w'))" by (metis prod.exhaust)
  from login_run [OF run] assms show ?thesis
    by (auto simp: s run after_def session_inv_def)
qed

lemma disconnect_session_inv:
  assumes "session_inv (fst s)"
  shows "\<not> connected (fst (after disconnect s)) \<and> \<not> logged_in (fst (after disconnect s))"
proof -
  obtain c w where s: "s = (c, w)" by (cases s)
  obtain r c' w' where run: "disconnect (c, w) = (r, (c', w'))" by (metis prod.exhaust)
  from disconnect_run [OF run] assms show ?thesis
    by (auto simp: s run after_def session_inv_def)
qed

text \<open>
  C7. A session in which \<open>logged_in\<close> implies \<open>connected\<close> is still such a session after
  any client operation. \<open>login\<close> turns \<open>logged_in\<close> on only in a session that is
  connected, and after \<open>disconnect\<close> both flags are false.
\<close>

theorem session_invariant_preserved:
  assumes "session_inv (fst s)"
  shows "session_inv (fst (run_op op s))
       \<and> (logged_in (fst (run_op (Op_login u p) s)) \<and> \<not> logged_in (fst s) \<longrightarrow> connected (fst s))
       \<and> \<not> connected (fst (run_op Op_disconnect s))
       \<and> \<not> logged_in (fst (run_op Op_disconnect s))"
proof -
  have "session_inv (fst (run_op op s))"
  proof (cases op)
    case (Op_connect h p)
    then show ?thesis using connect_session_inv [OF assms] by simp
  next
    case (Op_login u' p')
    then show ?thesis using login_session_inv [OF assms] by simp
  next
    case Op_disconnect
    then show ?thesis using disconnect_session_inv [OF assms] by (simp add: session_inv_def)
  next
    case (Op_send_command cmd)
    then show ?thesis using keep_session_inv [OF keep_send_command assms] by simp
  next
    case Op_receive_response
    then show ?thesis using keep_session_inv [OF keep_receive_response assms] by simp
  next
    case (Op_set_transfer_mode m)
    then show ?thesis using keep_session_inv [OF keep_set_transfer_mode assms] by simp
  next
    case Op_toggle_passive_mode
    then show ?thesis using keep_session_inv [OF keep_toggle_passive_mode assms] by simp
  next
    case (Op_open_data_connection la)
    then show ?thesis using keep_session_inv [OF keep_open_data_connection assms] by simp
  next
    case (Op_cmd_get la args)
    then show ?thesis using keep_session_inv [OF keep_cmd_get assms] by simp
  next
    case (Op_cmd_put ld la args)
    then show ?thesis using keep_session_inv [OF keep_cmd_put assms] by simp
  qed
  then show ?thesis
    using login_session_inv [OF assms, of u p] disconnect_session_inv [OF assms] by simp
qed

lemma logged_in_session_flags:
  "connected (fst logged_in_session) \<and> logged_in (fst logged_in_session)"
  by code_simp

text \<open>
  A session that connected and logged in satisfies the invariant and \<open>disconnect\<close>
  clears both flags; the login that set \<open>logged_in\<close> ran in a connected session.
\<close>

theorem session_invariant_preserved_witness:
  "session_inv (fst logged_in_session)
   \<and> logged_in (fst logged_in_session)
   \<and> session_inv (fst (run_op Op_disconnect logged_in_session))
   \<and> \<not> connected (fst (run_op Op_disconnect logged_in_session))
   \<and> \<not> logged_in (fst (run_op Op_disconnect logged_in_session))
   \<and> session_inv (fst (run_op (Op_connect None None) (demo_client, session_world)))
   \<and> connected (fst (run_op (Op_connect None None) (demo_client, session_world)))"
proof -
  have a: "session_inv (fst logged_in_session)"
    using logged_in_session_flags by (simp add: session_inv_def)
  have b: "session_inv (fst (run_op (Op_connect None None) (demo_client, session_world)))"
    by code_simp
  have c: "\<not> logged_in (fst (run_op (Op_connect None None) (demo_client, session_world)))"
    by code_simp
  show ?thesis
    using session_invariant_preserved [OF a, of Op_disconnect None None]
      session_invariant_preserved [OF b, of Op_disconnect None None]
      logged_in_session_flags a b c
    by (simp add: logged_in_session_def)
qed

section \<open>Fault-free stretches of a run\<close>

lemma quiet_refl: "quiet w w"
  unfolding quiet_def by (rule exI [of _ 0]) simp

lemma quiet_trans:
  assumes "quiet a b" "quiet b c"
  shows "quiet a c"
proof -
  from assms(1) obtain n where n: "faults b = drop n (faults a)"
      "list_all (\<lambda>f. f = None) (take n (faults a))" by (auto simp: quiet_def)
  from assms(2) obtain m where m: "faults c = drop m (faults b)"
      "list_all (\<lambda>f. f = None) (take m (faults b))" by (auto simp: quiet_def)
  have "take (n + m) (faults a) = take n (faults a) @ take m (drop n (faults a))"
    by (simp add: take_add)
  with n m have "list_all (\<lambda>f. f = None) (take (n + m) (faults a))" by simp
  moreover have "faults c = drop (n + m) (faults a)" using n m by (simp add: add.commute)
  ultimately show ?thesis unfolding quiet_def by blast
qed

lemma quiet_faults: "faults w' = faults w \<Longrightarrow> quiet w w'"
  unfolding quiet_def by (rule exI [of _ 0]) simp

lemma env_call_ok:
  assumes "env_call w = (Inr x, w')"
  shows "quiet w w' \<and> w' = w\<lparr>faults := faults w'\<rparr>"
proof (cases "faults w")
  case Nil
  with assms show ?thesis by (auto simp: env_call_def quiet_refl)
next
  case (Cons f fs)
  with assms have f: "f = None" "w' = w\<lparr>faults := fs\<rparr>"
    by (auto simp: env_call_def split: option.splits)
  have "quiet w w'" unfolding quiet_def
    by (rule exI [of _ 1]) (simp add: Cons f)
  with f show ?thesis by simp
qed

lemma io_bind_InrD:
  "io_bind m f s = (Inr y, s') \<Longrightarrow> \<exists>x s1. m s = (Inr x, s1) \<and> f x s1 = (Inr y, s')"
  by (auto simp: io_bind_def split: prod.splits sum.splits)

lemma received_append: "received k (xs @ ys) = received k xs @ received k ys"
  by (induction k xs rule: received.induct) auto

lemma stepped_refl: "stepped k w [] w"
  by (simp add: stepped_def quiet_refl)

lemma stepped_trans:
  assumes "stepped k a e1 b" "stepped k b e2 c"
  shows "stepped k a (e1 @ e2) c"
proof -
  have "inbox c = (inbox a)(k := inbox c k)"
  proof -
    have "inbox c = (inbox b)(k := inbox c k)" using assms(2) by (simp add: stepped_def)
    moreover have "inbox b = (inbox a)(k := inbox b k)" using assms(1) by (simp add: stepped_def)
    ultimately show ?thesis by (metis fun_upd_upd)
  qed
  then show ?thesis
    using assms quiet_trans [of a b c] by (simp add: stepped_def)
qed

lemma stepped_emit:
  assumes "io_bind env_call (\<lambda>_. emit k ev) w = (Inr x, w')"
  shows "stepped k w [(k, ev)] w'"
proof -
  from io_bind_InrD [OF assms] obtain w1 where a: "env_call w = (Inr (), w1)"
      and b: "emit k ev w1 = (Inr x, w')" by auto
  from env_call_ok [OF a] have q: "quiet w w1" and e: "w1 = w\<lparr>faults := faults w1\<rparr>" by simp_all
  from b have w': "w' = w1\<lparr>wire := wire w1 @ [(k, ev)]\<rparr>" by (simp add: emit_def)
  have "quiet w w'" using q w' by (auto simp: quiet_def)
  moreover have "wire w1 = wire w" "sockets w1 = sockets w" "files w1 = files w"
    "stdin w1 = stdin w" "clock w1 = clock w" "inbox w1 = inbox w"
    by (subst e, simp)+
  ultimately show ?thesis using w' by (simp add: stepped_def)
qed

lemma sock_send_ok: "sock_send k d w = (Inr x, w') \<Longrightarrow> stepped k w [(k, Send d)] w'"
  unfolding sock_send_def by (rule stepped_emit)

lemma sock_connect_ok:
  "sock_connect k h p w = (Inr x, w') \<Longrightarrow> stepped k w [(k, Connect h p)] w'"
  unfolding sock_connect_def by (rule stepped_emit)

lemma sock_close_ok: "sock_close k w = (Inr x, w') \<Longrightarrow> stepped k w [(k, Close)] w'"
  unfolding sock_close_def by (rule stepped_emit)

lemma env_only_ok:
  assumes "io_bind env_call (\<lambda>_ w. (g w, w)) w = (Inr x, w')"
  shows "stepped k w [] w' \<and> g w' = Inr x"
proof -
  from io_bind_InrD [OF assms] obtain w1 where a: "env_call w = (Inr (), w1)"
      and b: "(g w1, w1) = (Inr x, w')" by auto
  from env_call_ok [OF a] have q: "quiet w w1" and e: "w1 = w\<lparr>faults := faults w1\<rparr>" by simp_all
  have "wire w1 = wire w" "sockets w1 = sockets w" "files w1 = files w"
    "stdin w1 = stdin w" "clock w1 = clock w" "inbox w1 = inbox w"
    by (subst e, simp)+
  with q b show ?thesis by (auto simp: stepped_def)
qed

lemma decode_ok: "decode d w = (Inr x, w') \<Longrightarrow> stepped k w [] w' \<and> x = d"
  using env_only_ok [of "\<lambda>_. Inr d" w x w' k] by (simp add: decode_def io_return_def)

lemma file_read_ok: "file_read n f w = (Inr x, w') \<Longrightarrow> stepped k w [] w' \<and> x = (take n f, drop n f)"
  using env_only_ok [of "\<lambda>_. Inr (take n f, drop n f)" w x w' k]
  by (simp add: file_read_def io_return_def)

lemma file_size_ok: "file_size path w = (Inr x, w') \<Longrightarrow> stepped k w [] w'"
  using env_only_ok [of "\<lambda>w. case files w path of None \<Rightarrow> Inl (Raised OSError (''[Errno 2] No such file or directory: '' @ py_repr path)) | Some content \<Rightarrow> Inr (length content)" w x w' k]
  by (auto simp: file_size_def io_bind_def split: prod.splits sum.splits option.splits)

lemma file_open_rb_ok: "file_open_rb path w = (Inr x, w') \<Longrightarrow> stepped k w [] w'"
  using env_only_ok [of "\<lambda>w. case files w path of None \<Rightarrow> Inl (Raised OSError (''[Errno 2] No such file or directory: '' @ py_repr path)) | Some content \<Rightarrow> Inr content" w x w' k]
  by (auto simp: file_open_rb_def io_bind_def split: prod.splits sum.splits option.splits)

lemma sock_recv_ok:
  assumes "sock_recv k n w = (Inr d, w')"
  shows "stepped k w [(k, Recv d)] w'"
proof -
  from assms have "\<exists>w1. env_call w = (Inr (), w1)
      \<and> w' = w1\<lparr>inbox := (inbox w1)(k := snd (take_chunk n (inbox w1 k))),
                  wire := wire w1 @ [(k, Recv d)]\<rparr>"
    by (auto simp: sock_recv_def io_bind_def split: prod.splits sum.splits)
  then obtain w1 where a: "env_call w = (Inr (), w1)"
    and w': "w' = w1\<lparr>inbox := (inbox w1)(k := snd (take_chunk n (inbox w1 k))),
                  wire := wire w1 @ [(k, Recv d)]\<rparr>" by blast
  from env_call_ok [OF a] have q: "quiet w w1" and e: "w1 = w\<lparr>faults := faults w1\<rparr>" by simp_all
  have same: "wire w1 = wire w" "sockets w1 = sockets w" "files w1 = files w"
    "stdin w1 = stdin w" "clock w1 = clock w" "inbox w1 = inbox w"
    by (subst e, simp)+
  have "quiet w w'" using q w' by (auto simp: quiet_def)
  then show ?thesis using w' same by (simp add: stepped_def)
qed

lemma socket_new_ok:
  assumes "socket_new w = (Inr k, w')"
  shows "k = sockets w \<and> quiet w w' \<and> w' = w\<lparr>faults := faults w', sockets := Suc (sockets w)\<rparr>"
proof -
  from assms have "\<exists>w1. env_call w = (Inr (), w1) \<and> k = sockets w1
      \<and> w' = w1\<lparr>sockets := Suc (sockets w1)\<rparr>"
    by (auto simp: socket_new_def io_bind_def split: prod.splits sum.splits)
  then obtain w1 where a: "env_call w = (Inr (), w1)" and k1: "k = sockets w1"
    and w1: "w' = w1\<lparr>sockets := Suc (sockets w1)\<rparr>" by blast
  from env_call_ok [OF a] have q: "quiet w w1" and e: "w1 = w\<lparr>faults := faults w1\<rparr>" by simp_all
  have s: "sockets w1 = sockets w" by (subst e, simp)
  from k1 w1 s have k: "k = sockets w" and w': "w' = w1\<lparr>sockets := Suc (sockets w)\<rparr>" by auto
  have "quiet w w'" using q w' by (auto simp: quiet_def)
  moreover have "w' = w\<lparr>faults := faults w', sockets := Suc (sockets w)\<rparr>"
    by (subst w', subst e, simp add: w')
  ultimately show ?thesis using k by simp
qed

lemma send_chunks_ok:
  "send_chunks k f sent fsize w = (Inr x, w') \<Longrightarrow>
     \<exists>evs. stepped k w evs w' \<and> received k evs = []"
proof (induction k f sent fsize w rule: send_chunks.induct)
  case (1 sock f sent fsize w)
  show ?case
  proof (cases "sent < fsize")
    case False
    with "1.prems" have "w' = w" by (simp add: send_chunks.simps)
    then show ?thesis using stepped_refl by (intro exI [of _ "[]"]) simp
  next
    case True
    obtain r1 w1 where rd: "file_read 8192 f w = (r1, w1)" by (metis prod.exhaust)
    show ?thesis
    proof (cases r1)
      case (Inl e)
      with "1.prems" True rd show ?thesis by (simp add: send_chunks.simps)
    next
      case (Inr cf)
      obtain chunk f' where cf: "cf = (chunk, f')" by (cases cf)
      from file_read_ok [of 8192 f w cf w1 sock] rd Inr
      have s1: "stepped sock w [] w1" by simp
      show ?thesis
      proof (cases "chunk = []")
        case True
        with "1.prems" \<open>sent < fsize\<close> rd Inr cf have "w' = w1" by (simp add: send_chunks.simps)
        with s1 show ?thesis by (intro exI [of _ "[]"]) simp
      next
        case False
        obtain r2 w2 where sd: "sock_send sock chunk w1 = (r2, w2)" by (metis prod.exhaust)
        show ?thesis
        proof (cases r2)
          case (Inl e)
          with "1.prems" \<open>sent < fsize\<close> rd Inr cf False sd show ?thesis
            by (simp add: send_chunks.simps)
        next
          case r2: (Inr u)
          from sock_send_ok [of sock chunk w1 u w2] sd r2
          have s2: "stepped sock w1 [(sock, Send chunk)] w2" by simp
          have rec: "send_chunks sock f' (sent + length chunk) fsize w2 = (Inr x, w')"
            using "1.prems" \<open>sent < fsize\<close> rd Inr cf False sd r2
            by (simp add: send_chunks.simps [of sock f sent fsize w])
          from "1.IH" [OF \<open>sent < fsize\<close> rd [symmetric] Inr cf [symmetric] False
              sd [symmetric] r2 rec]
          obtain evs where ih: "stepped sock w2 evs w'" "received sock evs = []" by blast
          from stepped_trans [OF stepped_trans [OF s1 s2] ih(1)]
          have "stepped sock w ((sock, Send chunk) # evs) w'" by simp
          with ih(2) show ?thesis by (intro exI [of _ "(sock, Send chunk) # evs"]) simp
        qed
      qed
    qed
  qed
qed

section \<open>The scan exchange\<close>

lemma scan_exchange_ok:
  assumes "scan_exchange ld path h p w = (Inr res, w')"
  shows "\<exists>reply evs.
           ld reply = Inr res \<and> quiet w w' \<and> sockets w' = Suc (sockets w)
           \<and> wire w' = wire w @ evs \<and> list_all (\<lambda>e. fst e = sockets w) evs
           \<and> received (sockets w) evs = [''READY'', ''READY'', reply]
           \<and> files w' = files w \<and> stdin w' = stdin w
           \<and> inbox w' = (inbox w)(sockets w := inbox w' (sockets w))"
proof -
  let ?k = "sockets w"
  note run = assms [unfolded scan_exchange_def Let_def create_socket_def]
  from io_bind_InrD [OF run] obtain k w0 where
    s0: "socket_new w = (Inr k, w0)" and
    r0: "io_bind (sock_connect k h p) (\<lambda>_.
           io_bind (file_size path) (\<lambda>fsize.
           io_bind (sock_send k (''FILENAME:'' @ py_basename path)) (\<lambda>_.
           io_bind (sock_recv k 1024) (\<lambda>response.
           if response \<noteq> ''READY'' then
             io_raise (Raised PlainException (''Unexpected response: b'' @ py_repr response))
           else
           io_bind (sock_send k (''SIZE:'' @ str_nat fsize)) (\<lambda>_.
           io_bind (sock_recv k 1024) (\<lambda>response.
           if response \<noteq> ''READY'' then
             io_raise (Raised PlainException (''Unexpected response: b'' @ py_repr response))
           else
           io_bind (file_open_rb path) (\<lambda>f.
           io_bind (send_chunks k f 0 fsize) (\<lambda>_.
           io_bind (sock_recv k 4096) (\<lambda>data.
           io_bind (decode data) (\<lambda>result_data.
           io_bind (io_lift (ld result_data)) (\<lambda>result.
           io_bind (sock_close k) (\<lambda>_.
           io_return result)))))))))))) w0 = (Inr res, w')"
    by blast
  from socket_new_ok [OF s0] have k: "k = ?k" and q0: "quiet w w0"
    and w0: "w0 = w\<lparr>faults := faults w0, sockets := Suc ?k\<rparr>" by simp_all
  from io_bind_InrD [OF r0] obtain u1 w1 where
    s1: "sock_connect k h p w0 = (Inr u1, w1)" and
    r1: "io_bind (file_size path) (\<lambda>fsize.
           io_bind (sock_send k (''FILENAME:'' @ py_basename path)) (\<lambda>_.
           io_bind (sock_recv k 1024) (\<lambda>response.
           if response \<noteq> ''READY'' then
             io_raise (Raised PlainException (''Unexpected response: b'' @ py_repr response))
           else
           io_bind (sock_send k (''SIZE:'' @ str_nat fsize)) (\<lambda>_.
           io_bind (sock_recv k 1024) (\<lambda>response.
           if response \<noteq> ''READY'' then
             io_raise (Raised PlainException (''Unexpected response: b'' @ py_repr response))
           else
           io_bind (file_open_rb path) (\<lambda>f.
           io_bind (send_chunks k f 0 fsize) (\<lambda>_.
           io_bind (sock_recv k 4096) (\<lambda>data.
           io_bind (decode data) (\<lambda>result_data.
           io_bind (io_lift (ld result_data)) (\<lambda>result.
           io_bind (sock_close k) (\<lambda>_.
           io_return result))))))))))) w1 = (Inr res, w')"
    by blast
  note t1 = sock_connect_ok [OF s1]
  from io_bind_InrD [OF r1] obtain fsize w2 where
    s2: "file_size path w1 = (Inr fsize, w2)" and
    r2: "io_bind (sock_send k (''FILENAME:'' @ py_basename path)) (\<lambda>_.
           io_bind (sock_recv k 1024) (\<lambda>response.
           if response \<noteq> ''READY'' then
             io_raise (Raised PlainException (''Unexpected response: b'' @ py_repr response))
           else
           io_bind (sock_send k (''SIZE:'' @ str_nat fsize)) (\<lambda>_.
           io_bind (sock_recv k 1024) (\<lambda>response.
           if response \<noteq> ''READY'' then
             io_raise (Raised PlainException (''Unexpected response: b'' @ py_repr response))
           else
           io_bind (file_open_rb path) (\<lambda>f.
           io_bind (send_chunks k f 0 fsize) (\<lambda>_.
           io_bind (sock_recv k 4096) (\<lambda>data.
           io_bind (decode data) (\<lambda>result_data.
           io_bind (io_lift (ld result_data)) (\<lambda>result.
           io_bind (sock_close k) (\<lambda>_.
           io_return result)))))))))) w2 = (Inr res, w')"
    by blast
  note t2 = file_size_ok [OF s2, of k]
  from io_bind_InrD [OF r2] obtain u3 w3 where
    s3: "sock_send k (''FILENAME:'' @ py_basename path) w2 = (Inr u3, w3)" and
    r3: "io_bind (sock_recv k 1024) (\<lambda>response.
           if response \<noteq> ''READY'' then
             io_raise (Raised PlainException (''Unexpected response: b'' @ py_repr response))
           else
           io_bind (sock_send k (''SIZE:'' @ str_nat fsize)) (\<lambda>_.
           io_bind (sock_recv k 1024) (\<lambda>response.
           if response \<noteq> ''READY'' then
             io_raise (Raised PlainException (''Unexpected response: b'' @ py_repr response))
           else
           io_bind (file_open_rb path) (\<lambda>f.
           io_bind (send_chunks k f 0 fsize) (\<lambda>_.
           io_bind (sock_recv k 4096) (\<lambda>data.
           io_bind (decode data) (\<lambda>result_data.
           io_bind (io_lift (ld result_data)) (\<lambda>result.
           io_bind (sock_close k) (\<lambda>_.
           io_return result))))))))) w3 = (Inr res, w')"
    by blast
  note t3 = sock_send_ok [OF s3]
  from io_bind_InrD [OF r3] obtain resp1 w4 where
    s4: "sock_recv k 1024 w3 = (Inr resp1, w4)" and
    r4': "(if resp1 \<noteq> ''READY'' then
             io_raise (Raised PlainException (''Unexpected response: b'' @ py_repr resp1))
           else
           io_bind (sock_send k (''SIZE:'' @ str_nat fsize)) (\<lambda>_.
           io_bind (sock_recv k 1024) (\<lambda>response.
           if response \<noteq> ''READY'' then
             io_raise (Raised PlainException (''Unexpected response: b'' @ py_repr response))
           else
           io_bind (file_open_rb path) (\<lambda>f.
           io_bind (send_chunks k f 0 fsize) (\<lambda>_.
           io_bind (sock_recv k 4096) (\<lambda>data.
           io_bind (decode data) (\<lambda>result_data.
           io_bind (io_lift (ld result_data)) (\<lambda>result.
           io_bind (sock_close k) (\<lambda>_.
           io_return result))))))))) w4 = (Inr res, w')"
    by blast
  note t4 = sock_recv_ok [OF s4]
  have resp1: "resp1 = ''READY''"
  proof (rule ccontr)
    assume "resp1 \<noteq> ''READY''"
    with r4' show False by (simp add: io_raise_def)
  qed
  from r4' resp1 have
    r4: "io_bind (sock_send k (''SIZE:'' @ str_nat fsize)) (\<lambda>_.
           io_bind (sock_recv k 1024) (\<lambda>response.
           if response \<noteq> ''READY'' then
             io_raise (Raised PlainException (''Unexpected response: b'' @ py_repr response))
           else
           io_bind (file_open_rb path) (\<lambda>f.
           io_bind (send_chunks k f 0 fsize) (\<lambda>_.
           io_bind (sock_recv k 4096) (\<lambda>data.
           io_bind (decode data) (\<lambda>result_data.
           io_bind (io_lift (ld result_data)) (\<lambda>result.
           io_bind (sock_close k) (\<lambda>_.
           io_return result)))))))) w4 = (Inr res, w')"
    by simp
  from io_bind_InrD [OF r4] obtain u5 w5 where
    s5: "sock_send k (''SIZE:'' @ str_nat fsize) w4 = (Inr u5, w5)" and
    r5: "io_bind (sock_recv k 1024) (\<lambda>response.
           if response \<noteq> ''READY'' then
             io_raise (Raised PlainException (''Unexpected response: b'' @ py_repr response))
           else
           io_bind (file_open_rb path) (\<lambda>f.
           io_bind (send_chunks k f 0 fsize) (\<lambda>_.
           io_bind (sock_recv k 4096) (\<lambda>data.
           io_bind (decode data) (\<lambda>result_data.
           io_bind (io_lift (ld result_data)) (\<lambda>result.
           io_bind (sock_close k) (\<lambda>_.
           io_return result))))))) w5 = (Inr res, w')"
    by blast
  note t5 = sock_send_ok [OF s5]
  from io_bind_InrD [OF r5] obtain resp2 w6 where
    s6: "sock_recv k 1024 w5 = (Inr resp2, w6)" and
    r6': "(if resp2 \<noteq> ''READY'' then
             io_raise (Raised PlainException (''Unexpected response: b'' @ py_repr resp2))
           else
           io_bind (file_open_rb path) (\<lambda>f.
           io_bind (send_chunks k f 0 fsize) (\<lambda>_.
           io_bind (sock_recv k 4096) (\<lambda>data.
           io_bind (decode data) (\<lambda>result_data.
           io_bind (io_lift (ld result_data)) (\<lambda>result.
           io_bind (sock_close k) (\<lambda>_.
           io_return result))))))) w6 = (Inr res, w')"
    by blast
  note t6 = sock_recv_ok [OF s6]
  have resp2: "resp2 = ''READY''"
  proof (rule ccontr)
    assume "resp2 \<noteq> ''READY''"
    with r6' show False by (simp add: io_raise_def)
  qed
  from r6' resp2 have
    r6: "io_bind (file_open_rb path) (\<lambda>f.
           io_bind (send_chunks k f 0 fsize) (\<lambda>_.
           io_bind (sock_recv k 4096) (\<lambda>data.
           io_bind (decode data) (\<lambda>result_data.
           io_bind (io_lift (ld result_data)) (\<lambda>result.
           io_bind (sock_close k) (\<lambda>_.
           io_return result)))))) w6 = (Inr res, w')"
    by simp
  from io_bind_InrD [OF r6] obtain f w7 where
    s7: "file_open_rb path w6 = (Inr f, w7)" and
    r7: "io_bind (send_chunks k f 0 fsize) (\<lambda>_.
           io_bind (sock_recv k 4096) (\<lambda>data.
           io_bind (decode data) (\<lambda>result_data.
           io_bind (io_lift (ld result_data)) (\<lambda>result.
           io_bind (sock_close k) (\<lambda>_.
           io_return result))))) w7 = (Inr res, w')"
    by blast
  note t7 = file_open_rb_ok [OF s7, of k]
  from io_bind_InrD [OF r7] obtain u8 w8 where
    s8: "send_chunks k f 0 fsize w7 = (Inr u8, w8)" and
    r8: "io_bind (sock_recv k 4096) (\<lambda>data.
           io_bind (decode data) (\<lambda>result_data.
           io_bind (io_lift (ld result_data)) (\<lambda>result.
           io_bind (sock_close k) (\<lambda>_.
           io_return result)))) w8 = (Inr res, w')"
    by blast
  from send_chunks_ok [OF s8] obtain sends where
    t8: "stepped k w7 sends w8" and nosend: "received k sends = []" by blast
  from io_bind_InrD [OF r8] obtain data w9 where
    s9: "sock_recv k 4096 w8 = (Inr data, w9)" and
    r9: "io_bind (decode data) (\<lambda>result_data.
           io_bind (io_lift (ld result_data)) (\<lambda>result.
           io_bind (sock_close k) (\<lambda>_.
           io_return result))) w9 = (Inr res, w')"
    by blast
  note t9 = sock_recv_ok [OF s9]
  from io_bind_InrD [OF r9] obtain result_data w10 where
    s10: "decode data w9 = (Inr result_data, w10)" and
    r10: "io_bind (io_lift (ld result_data)) (\<lambda>result.
           io_bind (sock_close k) (\<lambda>_.
           io_return result)) w10 = (Inr res, w')"
    by blast
  from decode_ok [OF s10, of k] have t10: "stepped k w9 [] w10" and rd: "result_data = data"
    by simp_all
  from io_bind_InrD [OF r10] obtain result w11 where
    s11: "io_lift (ld result_data) w10 = (Inr result, w11)" and
    r11: "io_bind (sock_close k) (\<lambda>_. io_return result) w11 = (Inr res, w')"
    by blast
  from s11 have ld: "ld data = Inr result" and w11: "w11 = w10" by (simp_all add: io_lift_def rd)
  from io_bind_InrD [OF r11] obtain u12 w12 where
    s12: "sock_close k w11 = (Inr u12, w12)" and
    r12: "io_return result w12 = (Inr res, w')"
    by blast
  note t12 = sock_close_ok [OF s12]
  from r12 have res: "res = result" and w': "w' = w12" by (simp_all add: io_return_def)
  let ?evs = "[(k, Connect h p)] @ [] @ [(k, Send (''FILENAME:'' @ py_basename path))]
      @ [(k, Recv resp1)] @ [(k, Send (''SIZE:'' @ str_nat fsize))] @ [(k, Recv resp2)]
      @ [] @ sends @ [(k, Recv data)] @ [] @ [(k, Close)]"
  have all: "stepped k w0 ?evs w'"
    unfolding w'
    by (intro stepped_trans [OF t1] stepped_trans [OF t2] stepped_trans [OF t3]
        stepped_trans [OF t4] stepped_trans [OF t5] stepped_trans [OF t6] stepped_trans [OF t7]
        stepped_trans [OF t8] stepped_trans [OF t9] stepped_trans [OF t10]
        t12 [unfolded w11])
  have rec: "received k ?evs = [''READY'', ''READY'', data]"
    by (simp add: received_append nosend resp1 resp2)
  have a: "quiet w w'" using q0 all quiet_trans by (auto simp: stepped_def)
  have b: "sockets w0 = Suc ?k" "wire w0 = wire w" "files w0 = files w" "stdin w0 = stdin w"
    "inbox w0 = inbox w"
    by (subst w0, simp)+
  show ?thesis
    using all rec a b ld res
    by (intro exI [of _ data] exI [of _ ?evs]) (simp add: stepped_def k)
qed

lemma status_of_result_dict [simp]: "status_of (result_dict st m d) = Some (JStr st)"
  by (simp add: status_of_def subscript_def result_dict_def)

lemma send_file_to_clamav_run:
  assumes "send_file_to_clamav ld path h p w = (r, w')"
  shows "(\<exists>m d. r = Inr (result_dict ''ERROR'' m d))
       \<or> (\<exists>res. r = Inr res \<and> files w path \<noteq> None \<and> scan_exchange ld path h p w = (Inr res, w'))"
proof (cases "files w path = None")
  case True
  with assms show ?thesis
    by (auto simp: send_file_to_clamav_def io_bind_def io_get_def io_return_def)
next
  case False
  obtain r1 w1 where e: "scan_exchange ld path h p w = (r1, w1)" by (metis prod.exhaust)
  from assms False e show ?thesis
    by (cases r1)
       (auto simp: send_file_to_clamav_def io_bind_def io_get_def io_try_def io_return_def)
qed

text \<open>
  C2. \<open>send_file_to_clamav\<close> never raises. A result whose status is not ERROR was
  loaded from the agent's reply to the payload, in a run in which no call met a fault
  and the agent answered \<open>READY\<close> to the file name and to the size. Hence status INFECTED
  comes only from an agent reply that carries it, and a transport failure, an unexpected
  answer to the file name or the size, or a reply that does not load give status ERROR.
\<close>

theorem scan_gateway_verdict:
  assumes "send_file_to_clamav ld path h p w = (r, w')"
  shows "\<exists>res. r = Inr res
     \<and> (status_of res \<noteq> Some (JStr ''ERROR'') \<longrightarrow>
          quiet w w'
          \<and> (\<exists>reply. received (sockets w) (new_events w w') = [''READY'', ''READY'', reply]
                \<and> ld reply = Inr res))
     \<and> (status_of res = Some (JStr ''INFECTED'') \<longrightarrow>
          (\<exists>reply. received (sockets w) (new_events w w') = [''READY'', ''READY'', reply]
                \<and> ld reply = Inr res))
     \<and> (\<not> quiet w w' \<longrightarrow> status_of res = Some (JStr ''ERROR''))
     \<and> ((\<forall>reply. received (sockets w) (new_events w w') \<noteq> [''READY'', ''READY'', reply])
          \<longrightarrow> status_of res = Some (JStr ''ERROR''))
     \<and> (\<forall>reply e. received (sockets w) (new_events w w') = [''READY'', ''READY'', reply]
            \<and> ld reply = Inl e \<longrightarrow> status_of res = Some (JStr ''ERROR''))"
proof -
  from send_file_to_clamav_run [OF assms]
  consider (err) m d where "r = Inr (result_dict ''ERROR'' m d)"
    | (ok) res where "r = Inr res" "scan_exchange ld path h p w = (Inr res, w')"
    by blast
  then show ?thesis
  proof cases
    case err
    then show ?thesis by simp
  next
    case ok
    from scan_exchange_ok [OF ok(2)] obtain reply evs where
      f: "ld reply = Inr res" "quiet w w'" "wire w' = wire w @ evs"
         "received (sockets w) evs = [''READY'', ''READY'', reply]" by blast
    have "new_events w w' = evs" using f(3) by (simp add: new_events_def)
    with f ok(1) show ?thesis by auto
  qed
qed

lemma infected_world_run:
  "fst (send_file_to_clamav demo_loader ''eicar.txt'' ''127.0.0.1'' 9999 infected_world)
     = Inr infected_result"
  by code_simp

lemma garbled_world_run:
  "fst (send_file_to_clamav demo_loader ''eicar.txt'' ''127.0.0.1'' 9999 garbled_world)
     = Inr (result_dict ''ERROR'' ''Failed to scan file'' ''Expecting value'')"
  by code_simp

lemma busy_world_run:
  "fst (send_file_to_clamav demo_loader ''eicar.txt'' ''127.0.0.1'' 9999 busy_world)
     = Inr (result_dict ''ERROR'' ''Failed to scan file'' (''Unexpected response: b'' @ py_repr ''BUSY''))"
  by code_simp

text \<open>
  An agent that reports INFECTED, one whose last reply is no JSON, and one that does not
  answer \<open>READY\<close>.
\<close>

theorem scan_gateway_verdict_witness:
  "fst (send_file_to_clamav demo_loader ''eicar.txt'' ''127.0.0.1'' 9999 infected_world)
     = Inr infected_result
   \<and> status_of infected_result = Some (JStr ''INFECTED'')
   \<and> quiet infected_world
        (snd (send_file_to_clamav demo_loader ''eicar.txt'' ''127.0.0.1'' 9999 infected_world))
   \<and> (\<exists>reply. demo_loader reply = Inr infected_result)
   \<and> fst (send_file_to_clamav demo_loader ''eicar.txt'' ''127.0.0.1'' 9999 garbled_world)
     = Inr (result_dict ''ERROR'' ''Failed to scan file'' ''Expecting value'')
   \<and> fst (send_file_to_clamav demo_loader ''eicar.txt'' ''127.0.0.1'' 9999 busy_world)
     = Inr (result_dict ''ERROR'' ''Failed to scan file'' (''Unexpected response: b'' @ py_repr ''BUSY''))"
proof -
  let ?run = "send_file_to_clamav demo_loader ''eicar.txt'' ''127.0.0.1'' 9999 infected_world"
  have s: "status_of infected_result = Some (JStr ''INFECTED'')"
    by (simp add: infected_result_def)
  have "?run = (fst ?run, snd ?run)" by simp
  from scan_gateway_verdict [OF this] infected_world_run s
  have "quiet infected_world (snd ?run) \<and> (\<exists>reply. demo_loader reply = Inr infected_result)"
    by auto
  with s infected_world_run garbled_world_run busy_world_run show ?thesis by simp
qed

section \<open>Uploads are gated on the scan\<close>

lemma io_bind_Inr: "m s = (Inr x, s') \<Longrightarrow> io_bind m f s = f x s'"
  by (simp add: io_bind_def)

lemma io_bind_Inl: "m s = (Inl e, s') \<Longrightarrow> io_bind m f s = (Inl e, s')"
  by (simp add: io_bind_def)

lemma io_try_Inr: "m s = (Inr x, s') \<Longrightarrow> io_try m h s = (Inr x, s')"
  by (simp add: io_try_def)

lemma io_try_Inl: "m s = (Inl e, s') \<Longrightarrow> io_try m h s = h e s'"
  by (simp add: io_try_def)

lemma scan_gate_infected:
  assumes "send_file_to_clamav ld f (agent_host (config c)) (agent_port (config c)) w = (Inr res, w1)"
    and "status_of res = Some (JStr ''INFECTED'')"
  shows "scan_gate ld f (c, w) = (Inr False, (c, w1))
       \<or> (\<exists>e. scan_gate ld f (c, w) = (Inl e, (c, w1)))"
proof -
  have v: "scan_file_for_virus ld f (c, w) = (Inr res, (c, w1))"
    using assms(1) by (simp add: scan_file_for_virus_def bind_get_self on_world_def)
  have st: "subscript res ''status'' = Inr (JStr ''INFECTED'')"
    using assms(2) by (auto simp: status_of_def split: sum.splits)
  show ?thesis
    unfolding scan_gate_def io_bind_Inr [where m = "scan_file_for_virus ld f", OF v]
    by (cases "subscript res ''message''"; cases "subscript res ''details''")
       (simp_all add: st io_bind_def io_lift_def io_return_def)
qed

lemma check_connection_run:
  "check_connection (c, w) = (Inr (connected c \<and> logged_in c), (c, w))"
  by (simp add: check_connection_def bind_get_self io_return_def)

lemma cmd_put_gate:
  assumes "connected c" "logged_in c" "files w f \<noteq> None"
    and "scan_gate ld f (c, w) = (Inr False, s1) \<or> (\<exists>e. scan_gate ld f (c, w) = (Inl e, s1))"
  shows "cmd_put ld la (f # rest) (c, w) = (Inr (), s1)"
proof -
  have cc: "check_connection (c, w) = (Inr True, (c, w))"
    using assms(1,2) by (simp add: check_connection_run)
  have g: "on_world io_get (c, w) = (Inr w, (c, w))"
    by (simp add: on_world_def io_get_def)
  have nf: "(files w f = None) = False" using assms(3) by simp
  from assms(4) show ?thesis
  proof
    assume a: "scan_gate ld f (c, w) = (Inr False, s1)"
    show ?thesis
      unfolding cmd_put_def io_bind_Inr [where m = check_connection, OF cc]
      by (simp add: nf Let_def io_bind_Inr [where m = "on_world io_get", OF g] io_try_def
          io_bind_Inr [where m = "scan_gate ld f", OF a] io_return_def)
  next
    assume "\<exists>e. scan_gate ld f (c, w) = (Inl e, s1)"
    then obtain e where a: "scan_gate ld f (c, w) = (Inl e, s1)" by blast
    show ?thesis
      unfolding cmd_put_def io_bind_Inr [where m = check_connection, OF cc]
      by (simp add: nf Let_def io_bind_Inr [where m = "on_world io_get", OF g] io_try_def
          io_bind_Inl [where m = "scan_gate ld f", OF a] io_return_def)
  qed
qed

lemma cmd_put_not_ready:
  "\<not> (connected c \<and> logged_in c) \<Longrightarrow> cmd_put ld la args (c, w) = (Inr (), (c, w))"
  unfolding cmd_put_def
  by (simp add: io_bind_Inr [where m = check_connection, OF check_connection_run] io_return_def)

text \<open>
  C1. When the scan of the file to upload returns a result with status INFECTED,
  \<open>cmd_put\<close> ends in the very state the scan left: the client is unchanged and nothing
  follows the scan, no command on the control connection and no data channel. The scan
  itself opened one socket, its own connection to the agent; every socket event of the
  run is on that socket and no other socket was read.
\<close>

theorem cmd_put_infected_blocked:
  assumes "send_file_to_clamav ld local_file (agent_host (config c)) (agent_port (config c)) w
             = (Inr res, w1)"
    and "status_of res = Some (JStr ''INFECTED'')"
  shows "cmd_put ld la (local_file # rest) (c, w)
           = (Inr (), (c, if connected c \<and> logged_in c then w1 else w))
       \<and> sockets w1 = Suc (sockets w)
       \<and> wire w1 = wire w @ new_events w w1
       \<and> list_all (\<lambda>e. fst e = sockets w) (new_events w w1)
       \<and> inbox w1 = (inbox w)(sockets w := inbox w1 (sockets w))"
proof -
  from send_file_to_clamav_run [OF assms(1)] assms(2)
  have nf: "files w local_file \<noteq> None"
    and ex: "scan_exchange ld local_file (agent_host (config c)) (agent_port (config c)) w
               = (Inr res, w1)"
    by auto
  from scan_exchange_ok [OF ex] obtain evs where
    f: "sockets w1 = Suc (sockets w)" "wire w1 = wire w @ evs"
       "list_all (\<lambda>e. fst e = sockets w) evs"
       "inbox w1 = (inbox w)(sockets w := inbox w1 (sockets w))" by blast
  have ne: "new_events w w1 = evs" using f(2) by (simp add: new_events_def)
  have "cmd_put ld la (local_file # rest) (c, w)
           = (Inr (), (c, if connected c \<and> logged_in c then w1 else w))"
  proof (cases "connected c \<and> logged_in c")
    case True
    then show ?thesis
      using cmd_put_gate [OF _ _ nf scan_gate_infected [OF assms], of la rest] by simp
  next
    case False
    then have "(if connected c \<and> logged_in c then w1 else w) = w" by (rule if_not_P)
    then show ?thesis using cmd_put_not_ready [OF False, of ld la "local_file # rest" w]
      by (simp only:)
  qed
  with f ne show ?thesis by simp
qed

text \<open>
  The upload of a file that the agent reports as infected: the command ends where the
  scan ended, with two sockets in the world, the control connection and the scan's own.
\<close>

theorem cmd_put_infected_blocked_witness:
  "fst (send_file_to_clamav demo_loader ''eicar.txt'' (agent_host (config upload_client))
          (agent_port (config upload_client)) infected_world) = Inr infected_result
   \<and> status_of infected_result = Some (JStr ''INFECTED'')
   \<and> cmd_put demo_loader demo_addr [''eicar.txt''] (upload_client, infected_world)
       = (Inr (), (upload_client,
            snd (send_file_to_clamav demo_loader ''eicar.txt'' (agent_host (config upload_client))
                   (agent_port (config upload_client)) infected_world)))
   \<and> sockets (snd (send_file_to_clamav demo_loader ''eicar.txt''
          (agent_host (config upload_client)) (agent_port (config upload_client)) infected_world))
       = 2"
proof -
  let ?run = "send_file_to_clamav demo_loader ''eicar.txt'' (agent_host (config upload_client))
          (agent_port (config upload_client)) infected_world"
  have a: "fst ?run = Inr infected_result" by code_simp
  have s: "status_of infected_result = Some (JStr ''INFECTED'')"
    by (simp add: infected_result_def)
  have e: "?run = (Inr infected_result, snd ?run)"
    using a by (metis prod.collapse)
  have c: "connected upload_client \<and> logged_in upload_client"
    by (simp add: upload_client_def)
  have n: "sockets infected_world = 1"
    by (simp add: infected_world_def upload_world_def)
  show ?thesis
    using cmd_put_infected_blocked [OF e s, of demo_addr "[]"] a s c n by simp
qed

section \<open>Temp files and partial downloads\<close>

text \<open>
  C3 fails on the code. The temp file is deleted at the end of the \<open>try\<close> block only: an
  exception raised after the file was created goes to the \<open>except\<close> branch, which sends an
  error reply, and to \<open>finally\<close>, which closes the connection; neither deletes the file.
  With a connection that is reset in the middle of the payload, the handler ends with
  the connection closed and the temp file, holding the bytes received so far, in place.
\<close>

theorem handle_client_leaves_temp_file:
  "fst (handle_client default_agent_config run json_dumps 0 reset_world) = Inr ()
   \<and> files (snd (handle_client default_agent_config run json_dumps 0 reset_world))
        (temp_path default_agent_config reset_world ''a.txt'') = Some ''he''
   \<and> (0, Close) \<in> set (wire (snd (handle_client default_agent_config run json_dumps 0 reset_world)))"
  by code_simp

text \<open>The same when the failure is in sending the scan result.\<close>

lemma handle_client_leaves_scanned_file:
  "files (snd (handle_client default_agent_config run json_dumps 0 deaf_world))
        (temp_path default_agent_config deaf_world ''a.txt'') = Some ''hello''"
  by code_simp

text \<open>With no failure the file is deleted.\<close>

lemma handle_client_deletes_on_success:
  "files (snd (handle_client default_agent_config run json_dumps 0 calm_world))
        (temp_path default_agent_config calm_world ''a.txt'') = None"
  by code_simp

text \<open>
  C9 fails on the code. \<open>cmd_get\<close> removes the partial file only after it has read the
  completion reply; when reading that reply raises, the exception leaves the \<open>try\<close>
  block and the file stays. Here the data connection is reset after three bytes and the
  completion reply times out: the command returns and the partial file is still there.
\<close>

theorem cmd_get_leaves_partial_file:
  "fst (cmd_get demo_addr [''remote.bin'', ''out.bin''] (upload_client, broken_download_world))
     = Inr ()
   \<and> files (snd (snd (cmd_get demo_addr [''remote.bin'', ''out.bin'']
                        (upload_client, broken_download_world)))) ''out.bin'' = Some ''abc''"
  by code_simp

text \<open>When the completion reply can be read, the partial file is removed.\<close>

lemma cmd_get_removes_partial_file:
  "files (snd (snd (cmd_get demo_addr [''remote.bin'', ''out.bin'']
                        (upload_client, aborted_download_world)))) ''out.bin'' = None"
  by code_simp

end
